theory Spec2Isabelle
  imports Main "HOL-Library.Sublist" "HOL-Library.AList" "HOL-Library.Word"
begin

section \<open>Go strings and the standard-library functions the code calls\<close>

text \<open>
  A Go string is a sequence of bytes: \<open>len\<close> counts bytes and a slice expression cuts
  bytes. The model uses \<^typ>\<open>string\<close>, a list of 8-bit characters; text outside ASCII
  is written as its UTF-8 bytes. The functions of this section belong to the Go standard
  library (\<open>strings\<close>, \<open>html\<close>, \<open>strconv\<close>, \<open>fmt\<close>), not to the repository; each is
  modelled by what its documentation says it returns.
\<close>

subsection \<open>\<open>strings.HasPrefix\<close> and \<open>strings.Contains\<close>\<close>

fun HasPrefix :: "string \<Rightarrow> string \<Rightarrow> bool" where
  "HasPrefix s [] = True"
| "HasPrefix [] (p # ps) = False"
| "HasPrefix (c # cs) (p # ps) = (if c = p then HasPrefix cs ps else False)"

text \<open>
  \<open>strings.Contains(s, substr)\<close>: \<open>substr\<close> occurs in \<open>s\<close> as a contiguous run of
  bytes. The empty string occurs in every string. The comparison is byte for byte, so
  it is case-sensitive.
\<close>

fun Contains :: "string \<Rightarrow> string \<Rightarrow> bool" where
  "Contains [] substr = HasPrefix [] substr"
| "Contains (c # cs) substr = (if HasPrefix (c # cs) substr then True else Contains cs substr)"

subsection \<open>White space and \<open>strings.TrimSpace\<close>\<close>

text \<open>
  \<open>strings.TrimSpace\<close> removes leading and trailing white space as \<open>unicode.IsSpace\<close>
  defines it: the six ASCII characters tab, line feed, vertical tab, form feed, carriage
  return and space, and the code points U+0085, U+00A0, U+1680, U+2000 to U+200A,
  U+2028, U+2029, U+202F, U+205F and U+3000. Go decodes the string as UTF-8 and an
  invalid byte decodes to U+FFFD, which is no white space; so a string starts (ends)
  with a white-space character exactly when it starts (ends) with the UTF-8 encoding of
  one.
\<close>

definition asciiSpace :: "char \<Rightarrow> bool" where
  "asciiSpace c =
     (c = CHR 0x09 \<or> c = CHR 0x0A \<or> c = CHR 0x0B \<or> c = CHR 0x0C \<or> c = CHR 0x0D \<or> c = CHR 0x20)"

definition unicodeSpaces :: "string list" where
  "unicodeSpaces =
     [[CHR 0xC2, CHR 0x85], [CHR 0xC2, CHR 0xA0], [CHR 0xE1, CHR 0x9A, CHR 0x80],
      [CHR 0xE2, CHR 0x80, CHR 0x80], [CHR 0xE2, CHR 0x80, CHR 0x81], [CHR 0xE2, CHR 0x80, CHR 0x82],
      [CHR 0xE2, CHR 0x80, CHR 0x83], [CHR 0xE2, CHR 0x80, CHR 0x84], [CHR 0xE2, CHR 0x80, CHR 0x85],
      [CHR 0xE2, CHR 0x80, CHR 0x86], [CHR 0xE2, CHR 0x80, CHR 0x87], [CHR 0xE2, CHR 0x80, CHR 0x88],
      [CHR 0xE2, CHR 0x80, CHR 0x89], [CHR 0xE2, CHR 0x80, CHR 0x8A], [CHR 0xE2, CHR 0x80, CHR 0xA8],
      [CHR 0xE2, CHR 0x80, CHR 0xA9], [CHR 0xE2, CHR 0x80, CHR 0xAF], [CHR 0xE2, CHR 0x81, CHR 0x9F],
      [CHR 0xE3, CHR 0x80, CHR 0x80]]"

text \<open>The length of the first encoding in the list that \<open>s\<close> starts with, 0 if there is none.\<close>

fun spaceWidth :: "string list \<Rightarrow> string \<Rightarrow> nat" where
  "spaceWidth [] s = 0"
| "spaceWidth (e # es) s = (if HasPrefix s e then length e else spaceWidth es s)"

text \<open>The number of bytes of the white-space character at the start (end) of \<open>s\<close>, 0 if there is none.\<close>

definition leadingSpace :: "string \<Rightarrow> nat" where
  "leadingSpace s =
     (case s of [] \<Rightarrow> 0
      | c # cs \<Rightarrow> if asciiSpace c then 1 else spaceWidth unicodeSpaces s)"

definition trailingSpace :: "string \<Rightarrow> nat" where
  "trailingSpace s =
     (case rev s of [] \<Rightarrow> 0
      | c # cs \<Rightarrow> if asciiSpace c then 1 else spaceWidth (map rev unicodeSpaces) (rev s))"

function TrimLeft :: "string \<Rightarrow> string" where
  "TrimLeft s = (if leadingSpace s = 0 then s else TrimLeft (drop (leadingSpace s) s))"
  by pat_completeness auto
termination
  by (relation "measure length") (auto simp: leadingSpace_def split: list.splits)

function TrimRight :: "string \<Rightarrow> string" where
  "TrimRight s = (if trailingSpace s = 0 then s else TrimRight (take (length s - trailingSpace s) s))"
  by pat_completeness auto
termination
  by (relation "measure length") (auto simp: trailingSpace_def split: list.splits)

declare TrimLeft.simps [simp del] TrimRight.simps [simp del]

definition TrimSpace :: "string \<Rightarrow> string" where
  "TrimSpace s = TrimRight (TrimLeft s)"

subsection \<open>\<open>strings.Fields\<close> and \<open>strings.Join\<close>\<close>

text \<open>
  \<open>strings.Fields\<close> splits a string around each run of white space and returns the
  non-empty pieces. \<open>cur\<close> is the piece being read.
\<close>

function Fields_loop :: "string \<Rightarrow> string \<Rightarrow> string list" where
  "Fields_loop [] cur = (if cur = [] then [] else [cur])"
| "Fields_loop (c # cs) cur =
     (if leadingSpace (c # cs) = 0 then Fields_loop cs (cur @ [c])
      else (if cur = [] then [] else [cur]) @ Fields_loop (drop (leadingSpace (c # cs)) (c # cs)) [])"
  by pat_completeness auto
termination
  by (relation "measure (\<lambda>(s, cur). length s)") auto

definition Fields :: "string \<Rightarrow> string list" where
  "Fields s = Fields_loop s []"

fun Join :: "string list \<Rightarrow> string \<Rightarrow> string" where
  "Join [] sep = []"
| "Join [e] sep = e"
| "Join (e # es) sep = e @ sep @ Join es sep"

subsection \<open>\<open>html.EscapeString\<close>\<close>

text \<open>
  \<open>html.EscapeString\<close> replaces exactly five bytes: \<open>&\<close>, the single quote, \<open><\<close>,
  \<open>>\<close> and the double quote.
\<close>

definition htmlSpecial :: "char \<Rightarrow> bool" where
  "htmlSpecial c =
     (c = CHR ''&'' \<or> c = CHR 0x27 \<or> c = CHR ''<'' \<or> c = CHR ''>'' \<or> c = CHR 0x22)"

definition escapeByte :: "char \<Rightarrow> string" where
  "escapeByte c =
     (if c = CHR ''&'' then ''&amp;''
      else if c = CHR 0x27 then ''&#39;''
      else if c = CHR ''<'' then ''&lt;''
      else if c = CHR ''>'' then ''&gt;''
      else if c = CHR 0x22 then ''&#34;''
      else [c])"

definition EscapeString :: "string \<Rightarrow> string" where
  "EscapeString s = concat (map escapeByte s)"

subsection \<open>\<open>strconv.Atoi\<close>\<close>

text \<open>
  \<open>strconv.Atoi\<close> reads an optional sign and then decimal digits only; it fails with a
  syntax error on anything else and with a range error when the value does not fit an
  \<open>int\<close>. An \<open>int\<close> has 64 bits on the platforms the server is built for. The digit loop
  is \<open>strconv.ParseUint\<close>'s: it reports overflow of 64 unsigned bits as soon as it
  happens, before looking at the bytes that follow.
\<close>

datatype NumError = ErrSyntax | ErrRange

definition intSize :: nat where
  "intSize = 64"

definition maxUint64 :: int where
  "maxUint64 = 2 ^ 64 - 1"

definition isDigit :: "char \<Rightarrow> bool" where
  "isDigit c = (48 \<le> (of_char c :: nat) \<and> (of_char c :: nat) \<le> 57)"

definition digitVal :: "char \<Rightarrow> int" where
  "digitVal c = int (of_char c) - 48"

fun ParseUint_loop :: "string \<Rightarrow> int \<Rightarrow> NumError + int" where
  "ParseUint_loop [] n = Inr n"
| "ParseUint_loop (c # cs) n =
     (if isDigit c then
        (if maxUint64 div 10 + 1 \<le> n then Inl ErrRange
         else if maxUint64 < n * 10 + digitVal c then Inl ErrRange
         else ParseUint_loop cs (n * 10 + digitVal c))
      else Inl ErrSyntax)"

definition ParseUint :: "string \<Rightarrow> NumError + int" where
  "ParseUint s = (if s = [] then Inl ErrSyntax else ParseUint_loop s 0)"

definition unsignedPart :: "string \<Rightarrow> string" where
  "unsignedPart s =
     (case s of [] \<Rightarrow> []
      | c # cs \<Rightarrow> if c = CHR ''+'' \<or> c = CHR ''-'' then cs else s)"

definition isNegative :: "string \<Rightarrow> bool" where
  "isNegative s = (case s of [] \<Rightarrow> False | c # cs \<Rightarrow> c = CHR ''-'')"

definition Atoi :: "string \<Rightarrow> NumError + int" where
  "Atoi s =
     (if s = [] then Inl ErrSyntax
      else case ParseUint (unsignedPart s) of
             Inl e \<Rightarrow> Inl e
           | Inr un \<Rightarrow>
               if isNegative s then
                 (if 2 ^ (intSize - 1) < un then Inl ErrRange else Inr (- un))
               else
                 (if 2 ^ (intSize - 1) \<le> un then Inl ErrRange else Inr un))"

text \<open>
  What a reader means by a numeric string and by the number it requests, independent of
  the width of an \<open>int\<close>: an optional sign, then one or more decimal digits, and the value
  they denote.
\<close>

definition isNumeric :: "string \<Rightarrow> bool" where
  "isNumeric s = (unsignedPart s \<noteq> [] \<and> list_all isDigit (unsignedPart s))"

fun decimalValue :: "string \<Rightarrow> int \<Rightarrow> int" where
  "decimalValue [] n = n"
| "decimalValue (c # cs) n = decimalValue cs (n * 10 + digitVal c)"

definition requestedValue :: "string \<Rightarrow> int" where
  "requestedValue s =
     (if isNegative s then - decimalValue (unsignedPart s) 0
      else decimalValue (unsignedPart s) 0)"

section \<open>Data model (package \<open>search\<close>)\<close>

text \<open>
  \<open>Score\<close> is a \<open>float64\<close>, carried as its 64-bit pattern: the code modelled here stores
  and copies it and does no arithmetic on it. \<open>Timestamp\<close> is a \<open>time.Time\<close>, carried as
  an instant. \<open>Total\<close> is an \<open>int64\<close> and \<open>Took\<close> an \<open>int\<close>.
\<close>

record Document =
  ID :: string
  Title :: string
  Content :: string
  URL :: string
  Score :: "64 word"
  Timestamp :: int

record SearchResult =
  Total :: int
  Hits :: "Document list"
  Took :: int
  Suggestions :: "string list"

section \<open>Content moderation (package \<open>filter\<close>)\<close>

text \<open>
  \<open>Service.blockedDomains\<close> is a \<open>map[string]bool\<close>; it is kept as an association list,
  because \<open>isBlocked\<close> ranges over its keys. The order in which Go visits the keys is
  not fixed; \<open>isBlocked\<close> only asks whether some key matches, so the answer does not
  depend on it. The mutex of the service guards concurrent access and carries no data.
\<close>

record Service =
  blockedDomains :: "(string \<times> bool) list"

definition defaultDomains :: "string list" where
  "defaultDomains =
     [''example-adult-site.com'', ''bad-content.org'', ''xxx-test.net'', ''adult.com'', ''porn.com'']"

fun loadDefaultBlacklist_loop :: "string list \<Rightarrow> (string \<times> bool) list \<Rightarrow> (string \<times> bool) list" where
  "loadDefaultBlacklist_loop [] m = m"
| "loadDefaultBlacklist_loop (d # domains) m = loadDefaultBlacklist_loop domains (AList.update d True m)"

definition loadDefaultBlacklist :: "Service \<Rightarrow> Service" where
  "loadDefaultBlacklist s =
     s\<lparr>blockedDomains := loadDefaultBlacklist_loop defaultDomains (blockedDomains s)\<rparr>"

definition NewService :: "Service" where
  "NewService = loadDefaultBlacklist \<lparr>blockedDomains = []\<rparr>"

text \<open>
  The keywords of \<open>isBlocked\<close>, a local variable of the function; the first three are the
  UTF-8 bytes of the Chinese words for "adult", "pornography" and "gambling".
\<close>

definition sensitiveKeywords :: "string list" where
  "sensitiveKeywords =
     [[CHR 0xE6, CHR 0x88, CHR 0x90, CHR 0xE4, CHR 0xBA, CHR 0xBA],
      [CHR 0xE8, CHR 0x89, CHR 0xB2, CHR 0xE6, CHR 0x83, CHR 0x85],
      [CHR 0xE8, CHR 0xB5, CHR 0x8C, CHR 0xE5, CHR 0x8D, CHR 0x9A],
      ''xxx'', ''porn'']"

text \<open>The first loop of \<open>isBlocked\<close>: it returns at the first domain found in the URL or the title.\<close>

fun isBlocked_domains :: "string list \<Rightarrow> Document \<Rightarrow> bool" where
  "isBlocked_domains [] doc = False"
| "isBlocked_domains (domain # ds) doc =
     (if Contains (URL doc) domain \<or> Contains (Title doc) domain then True
      else isBlocked_domains ds doc)"

text \<open>The second loop: it returns at the first keyword found in the title or the content.\<close>

fun isBlocked_keywords :: "string list \<Rightarrow> Document \<Rightarrow> bool" where
  "isBlocked_keywords [] doc = False"
| "isBlocked_keywords (kw # kws) doc =
     (if Contains (Title doc) kw \<or> Contains (Content doc) kw then True
      else isBlocked_keywords kws doc)"

definition isBlocked :: "Service \<Rightarrow> Document \<Rightarrow> bool" where
  "isBlocked s doc =
     (if isBlocked_domains (map fst (blockedDomains s)) doc then True
      else if isBlocked_keywords sensitiveKeywords doc then True
      else False)"

text \<open>
  The loop of \<open>Filter\<close>, with its two variables: \<open>safeResults\<close> grows by \<open>append\<close>,
  \<open>filteredCount\<close> by one for each blocked document. The count is a Go \<open>int\<close>; it never
  exceeds the length of the slice, so it cannot overflow.
\<close>

fun Filter_loop :: "Service \<Rightarrow> Document list \<Rightarrow> Document list \<Rightarrow> int \<Rightarrow> Document list \<times> int" where
  "Filter_loop s [] safeResults filteredCount = (safeResults, filteredCount)"
| "Filter_loop s (doc # results) safeResults filteredCount =
     (if isBlocked s doc then Filter_loop s results safeResults (filteredCount + 1)
      else Filter_loop s results (safeResults @ [doc]) filteredCount)"

definition Filter :: "Service \<Rightarrow> Document list \<Rightarrow> Document list \<times> int" where
  "Filter s results = Filter_loop s results [] 0"

section \<open>Input validation (package \<open>api\<close>)\<close>

definition validateSearchInput :: "string \<Rightarrow> string \<times> bool" where
  "validateSearchInput query =
     (let query1 = TrimSpace query in
      if query1 = [] then ([], False)
      else let query2 = (if 100 < length query1 then take 100 query1 else query1)
           in (EscapeString query2, True))"

definition validatePagination :: "string \<Rightarrow> string \<Rightarrow> int \<times> int" where
  "validatePagination pageStr sizeStr =
     (let page = (case Atoi pageStr of Inl err \<Rightarrow> 1 | Inr p \<Rightarrow> if p < 1 then 1 else p);
          size1 = (case Atoi sizeStr of Inl err \<Rightarrow> 10 | Inr n \<Rightarrow> if n < 1 then 10 else n);
          size2 = (if 50 < size1 then 50 else size1)
      in (page, size2))"

section \<open>Geo classification (package \<open>ip\<close>)\<close>

subsection \<open>\<open>net.IP\<close>\<close>

text \<open>
  A \<open>net.IP\<close> is a slice of bytes, 4 bytes for an IPv4 address or 16 for an IPv6 one; an
  IPv4 address can also be held in 16 bytes, behind the prefix \<open>::ffff:0:0/96\<close>. Reading
  a slice out of range panics in Go; every indexed read of the model goes through
  \<open>byteIs\<close>, which makes the panic a value, and \<open>orElse\<close> and \<open>andAlso\<close> are Go's \<open>||\<close>
  and \<open>&&\<close>, which do not evaluate their right operand when the left one decides.
\<close>

type_synonym IP = "8 word list"

datatype panic = IndexOutOfRange

definition byteIs :: "IP \<Rightarrow> nat \<Rightarrow> (8 word \<Rightarrow> bool) \<Rightarrow> panic + bool" where
  "byteIs ip i P = (if i < length ip then Inr (P (ip ! i)) else Inl IndexOutOfRange)"

definition orElse :: "panic + bool \<Rightarrow> panic + bool \<Rightarrow> panic + bool" where
  "orElse a b = (case a of Inl p \<Rightarrow> Inl p | Inr x \<Rightarrow> if x then Inr True else b)"

definition andAlso :: "panic + bool \<Rightarrow> panic + bool \<Rightarrow> panic + bool" where
  "andAlso a b = (case a of Inl p \<Rightarrow> Inl p | Inr x \<Rightarrow> if x then b else Inr False)"

definition v4InV6Prefix :: IP where
  "v4InV6Prefix = [0, 0, 0, 0, 0, 0, 0, 0, 0, 0, 0xff, 0xff]"

definition IPv6loopback :: IP where
  "IPv6loopback = [0, 0, 0, 0, 0, 0, 0, 0, 0, 0, 0, 0, 0, 0, 0, 1]"

definition isZeros :: "IP \<Rightarrow> bool" where
  "isZeros p = list_all (\<lambda>b. b = 0) p"

text \<open>\<open>IP.To4\<close>: the 4-byte form of an IPv4 address, \<open>nil\<close> (here \<open>None\<close>) for anything else.\<close>

definition To4 :: "IP \<Rightarrow> IP option" where
  "To4 ip =
     (if length ip = 4 then Some ip
      else if length ip = 16 \<and> isZeros (take 10 ip) \<and> ip ! 10 = 0xff \<and> ip ! 11 = 0xff
        then Some (drop 12 ip)
      else None)"

text \<open>\<open>IP.Equal\<close>: an IPv4 address and its 16-byte form are equal.\<close>

definition Equal :: "IP \<Rightarrow> IP \<Rightarrow> bool" where
  "Equal ip x =
     (if length ip = length x then ip = x
      else if length ip = 4 \<and> length x = 16 then take 12 x = v4InV6Prefix \<and> ip = drop 12 x
      else if length ip = 16 \<and> length x = 4 then take 12 ip = v4InV6Prefix \<and> drop 12 ip = x
      else False)"

text \<open>\<open>IP.IsLoopback\<close>: \<open>127.0.0.0/8\<close> or \<open>::1\<close>.\<close>

definition IsLoopback :: "IP \<Rightarrow> panic + bool" where
  "IsLoopback ip =
     (case To4 ip of
        Some ip4 \<Rightarrow> byteIs ip4 0 (\<lambda>b. b = 127)
      | None \<Rightarrow> Inr (Equal ip IPv6loopback))"

subsection \<open>The classifier\<close>

definition isPrivateIP :: "IP \<Rightarrow> panic + bool" where
  "isPrivateIP ip =
     (case To4 ip of
        Some ip4 \<Rightarrow>
          orElse (byteIs ip4 0 (\<lambda>b. b = 10))
            (orElse
               (andAlso (byteIs ip4 0 (\<lambda>b. b = 172))
                  (andAlso (byteIs ip4 1 (\<lambda>b. 16 \<le> b)) (byteIs ip4 1 (\<lambda>b. b \<le> 31))))
               (andAlso (byteIs ip4 0 (\<lambda>b. b = 192)) (byteIs ip4 1 (\<lambda>b. b = 168))))
      | None \<Rightarrow> Inr False)"

text \<open>
  \<open>IsChinaMainland\<close>. The parser \<open>net.ParseIP\<close> belongs to Go's standard library; the
  classifier takes it as the parameter \<open>parse\<close>, with \<open>None\<close> for Go's \<open>nil\<close>, so that
  what is proved of the classifier holds for every parser. The service itself has no
  fields.
\<close>

definition IsChinaMainland :: "(string \<Rightarrow> IP option) \<Rightarrow> string \<Rightarrow> panic + bool" where
  "IsChinaMainland parse ipStr =
     (if ipStr = ''::1'' then Inr True
      else case parse ipStr of
        None \<Rightarrow> Inr False
      | Some ip \<Rightarrow>
          (case orElse (IsLoopback ip) (isPrivateIP ip) of
             Inl p \<Rightarrow> Inl p
           | Inr local \<Rightarrow>
               if local then Inr True
               else (case To4 ip of
                       Some ip4 \<Rightarrow>
                         (case andAlso (byteIs ip4 0 (\<lambda>b. 1 \<le> b)) (byteIs ip4 0 (\<lambda>b. b \<le> 100)) of
                            Inl p \<Rightarrow> Inl p
                          | Inr inTable \<Rightarrow> if inTable then Inr True else Inr False)
                     | None \<Rightarrow> Inr False)))"

text \<open>
  What the classifier is meant to recognise, on the first two bytes \<open>a\<close> and \<open>b\<close> of an
  IPv4 address: loopback is \<open>127.0.0.0/8\<close>, the private ranges are \<open>10.0.0.0/8\<close>,
  \<open>172.16.0.0/12\<close> and \<open>192.168.0.0/16\<close>, and the static table takes every first byte
  from 1 to 100.
\<close>

definition loopbackOrPrivateV4 :: "8 word \<Rightarrow> 8 word \<Rightarrow> bool" where
  "loopbackOrPrivateV4 a b =
     (a = 127 \<or> a = 10 \<or> (a = 172 \<and> 16 \<le> b \<and> b \<le> 31) \<or> (a = 192 \<and> b = 168))"

definition inRangeTable :: "8 word \<Rightarrow> bool" where
  "inRangeTable a = (1 \<le> a \<and> a \<le> 100)"

text \<open>
  The private range of IPv6: the unique local addresses \<open>fc00::/7\<close> of RFC 4193, which
  Go's own \<open>IP.IsPrivate\<close> counts as private next to the three IPv4 ranges. They are the
  16-byte addresses whose first byte is \<open>0xfc\<close> or \<open>0xfd\<close>.
\<close>

definition uniqueLocalV6 :: "IP \<Rightarrow> bool" where
  "uniqueLocalV6 ip = (length ip = 16 \<and> (ip ! 0 = 0xfc \<or> ip ! 0 = 0xfd))"

subsection \<open>A model of \<open>net.ParseIP\<close>\<close>

text \<open>
  \<open>net.ParseIP\<close> accepts dotted-decimal IPv4 (four fields from 0 to 255, no leading
  zeros) and colon-separated IPv6 (up to eight groups of one to four hexadecimal digits,
  at most one \<open>::\<close>, optionally an IPv4 address in place of the last two groups, no
  zone), and returns the 16-byte form. The first \<open>.\<close> or \<open>:\<close> of the string decides
  which of the two is tried.
\<close>

fun splitOn :: "char \<Rightarrow> string \<Rightarrow> string \<Rightarrow> string list" where
  "splitOn sep [] cur = [cur]"
| "splitOn sep (c # cs) cur = (if c = sep then cur # splitOn sep cs [] else splitOn sep cs (cur @ [c]))"

definition parseOctet :: "string \<Rightarrow> 8 word option" where
  "parseOctet ds =
     (if ds = [] then None
      else if list_all isDigit ds then
        (if 1 < length ds \<and> hd ds = CHR ''0'' then None
         else if 255 < decimalValue ds 0 then None
         else Some (word_of_int (decimalValue ds 0)))
      else None)"

definition parseIPv4Fields :: "string \<Rightarrow> IP option" where
  "parseIPv4Fields s =
     (case map parseOctet (splitOn (CHR ''.'') s []) of
        [Some a, Some b, Some c, Some d] \<Rightarrow> Some [a, b, c, d]
      | _ \<Rightarrow> None)"

definition isHex :: "char \<Rightarrow> bool" where
  "isHex c =
     (isDigit c \<or> (97 \<le> (of_char c :: nat) \<and> (of_char c :: nat) \<le> 102)
      \<or> (65 \<le> (of_char c :: nat) \<and> (of_char c :: nat) \<le> 70))"

definition hexVal :: "char \<Rightarrow> int" where
  "hexVal c =
     (if isDigit c then int (of_char c) - 48
      else if 97 \<le> (of_char c :: nat) then int (of_char c) - 87
      else int (of_char c) - 55)"

fun hexValue :: "string \<Rightarrow> int \<Rightarrow> int" where
  "hexValue [] n = n"
| "hexValue (c # cs) n = hexValue cs (n * 16 + hexVal c)"

text \<open>
  The last step of \<open>parseIPv6\<close>: the whole string must have been read; fewer than 16
  bytes need a \<open>::\<close>, which is filled with zeros, and 16 bytes must not have one.
\<close>

definition finishIPv6 :: "string \<Rightarrow> IP \<Rightarrow> nat option \<Rightarrow> IP option" where
  "finishIPv6 s ip ellipsis =
     (if s = [] then
        (if length ip < 16 then
           (case ellipsis of
              None \<Rightarrow> None
            | Some e \<Rightarrow> Some (take e ip @ replicate (16 - length ip) 0 @ drop e ip))
         else (case ellipsis of None \<Rightarrow> Some ip | Some e \<Rightarrow> None))
      else None)"

text \<open>
  The loop of \<open>parseIPv6\<close>, one group of hexadecimal digits for each turn; \<open>ip\<close> holds the
  bytes read so far and the loop runs while there are fewer than 16.
\<close>

function parseIPv6_loop :: "string \<Rightarrow> IP \<Rightarrow> nat option \<Rightarrow> IP option" where
  "parseIPv6_loop s ip ellipsis =
     (if length ip < 16 then
        (let digits = takeWhile isHex s; rest = dropWhile isHex s in
         if digits = [] then None
         else if 4 < length digits then None
         else if rest = [] then
           finishIPv6 [] (ip @ [word_of_int (hexValue digits 0 div 256), word_of_int (hexValue digits 0)])
             ellipsis
         else if hd rest = CHR ''.'' then
           (if ellipsis = None \<and> length ip \<noteq> 12 then None
            else if 16 < length ip + 4 then None
            else (case parseIPv4Fields s of
                    None \<Rightarrow> None
                  | Some v4 \<Rightarrow> finishIPv6 [] (ip @ v4) ellipsis))
         else if hd rest = CHR '':'' then
           (if tl rest = [] then None
            else if hd (tl rest) = CHR '':'' then
              (case ellipsis of
                 Some e \<Rightarrow> None
               | None \<Rightarrow>
                   if tl (tl rest) = [] then
                     finishIPv6 []
                       (ip @ [word_of_int (hexValue digits 0 div 256), word_of_int (hexValue digits 0)])
                       (Some (length ip + 2))
                   else
                     parseIPv6_loop (tl (tl rest))
                       (ip @ [word_of_int (hexValue digits 0 div 256), word_of_int (hexValue digits 0)])
                       (Some (length ip + 2)))
            else
              parseIPv6_loop (tl rest)
                (ip @ [word_of_int (hexValue digits 0 div 256), word_of_int (hexValue digits 0)])
                ellipsis)
         else None)
      else finishIPv6 s ip ellipsis)"
  by pat_completeness auto
termination
  by (relation "measure (\<lambda>(s, ip, ellipsis). 16 - length ip)") auto

declare parseIPv6_loop.simps [simp del]

definition parseIPv6 :: "string \<Rightarrow> IP option" where
  "parseIPv6 s =
     (if CHR ''%'' \<in> set s then None
      else if HasPrefix s ''::'' then
        (if drop 2 s = [] then Some (replicate 16 0)
         else parseIPv6_loop (drop 2 s) [] (Some 0))
      else parseIPv6_loop s [] None)"

text \<open>The scan of \<open>ParseIP\<close> for the first \<open>.\<close>, \<open>:\<close> or \<open>%\<close>.\<close>

fun ParseIP_scan :: "string \<Rightarrow> string \<Rightarrow> IP option" where
  "ParseIP_scan s [] = None"
| "ParseIP_scan s (c # cs) =
     (if c = CHR ''.'' then
        (case parseIPv4Fields s of None \<Rightarrow> None | Some v4 \<Rightarrow> Some (v4InV6Prefix @ v4))
      else if c = CHR '':'' then parseIPv6 s
      else if c = CHR ''%'' then None
      else ParseIP_scan s cs)"

definition ParseIP :: "string \<Rightarrow> IP option" where
  "ParseIP s = ParseIP_scan s s"

section \<open>The cache store\<close>

text \<open>
  The Redis server is a collaborator. Its state is the map of the entries it holds, each
  with the time to live it was written with, and whether the server can be reached.
  Expiry is the server's own business: an entry that has expired is no longer in the
  map. \<open>Get\<close> answers with the error \<open>redis.Nil\<close> for a key that is absent and with
  another error when the server cannot be reached; the callers treat both as a miss.
  Durations are \<open>time.Duration\<close>, a count of nanoseconds.
\<close>

datatype RedisError = RedisNil | RedisUnreachable

record Redis =
  entries :: "string \<rightharpoonup> string \<times> int"
  reachable :: bool

definition redisGet :: "Redis \<Rightarrow> string \<Rightarrow> RedisError + string" where
  "redisGet r key =
     (if reachable r then
        (case entries r key of None \<Rightarrow> Inl RedisNil | Some (val, ttl) \<Rightarrow> Inr val)
      else Inl RedisUnreachable)"

text \<open>\<open>Set\<close>; the callers drop its error, so an unreachable server leaves the state as it is.\<close>

definition redisSet :: "Redis \<Rightarrow> string \<Rightarrow> string \<Rightarrow> int \<Rightarrow> Redis" where
  "redisSet r key val ttl =
     (if reachable r then r\<lparr>entries := (entries r)(key \<mapsto> (val, ttl))\<rparr> else r)"

text \<open>
  \<open>GetOrSet\<close> writes back in a goroutine that is started and not waited for. The
  model returns it as a task: the key, the value \<open>data\<close> the goroutine captured and the
  time to live. \<open>runTask\<close> is what the goroutine does when it runs: it serialises the
  value, dropping the error of \<open>json.Marshal\<close> (a failed serialisation leaves an empty
  byte slice), and calls \<open>Set\<close>.
\<close>

datatype 'a task = WriteBack string 'a int

fun runTask :: "('a \<Rightarrow> string option) \<Rightarrow> Redis \<Rightarrow> 'a task \<Rightarrow> Redis" where
  "runTask marshal r (WriteBack key data ttl) =
     redisSet r key (case marshal data of None \<Rightarrow> [] | Some bytes \<Rightarrow> bytes) ttl"

fun runTasks :: "('a \<Rightarrow> string option) \<Rightarrow> Redis \<Rightarrow> 'a task list \<Rightarrow> Redis" where
  "runTasks marshal r [] = r"
| "runTasks marshal r (t # ts) = runTasks marshal (runTask marshal r t) ts"

section \<open>Cache-aside (package \<open>cache\<close>)\<close>

text \<open>
  \<open>GetOrSet\<close> returns an \<open>interface{}\<close>: the cached string on a hit, the fetched value
  on a miss. \<open>fetch\<close> is the caller's function; its error type is the caller's. The
  result is the returned pair together with the tasks started.
\<close>

datatype 'a cached = Cached string | Fetched 'a

definition GetOrSet ::
  "Redis \<Rightarrow> string \<Rightarrow> int \<Rightarrow> (unit \<Rightarrow> 'e + 'a) \<Rightarrow> ('e + 'a cached) \<times> 'a task list" where
  "GetOrSet c key ttl fetch =
     (case redisGet c key of
        Inr val \<Rightarrow> (Inr (Cached val), [])
      | Inl miss \<Rightarrow>
          (case fetch () of
             Inl err \<Rightarrow> (Inl err, [])
           | Inr data \<Rightarrow> (Inr (Fetched data), [WriteBack key data ttl])))"

section \<open>The query orchestrator (package \<open>search\<close>)\<close>

subsection \<open>Formatting\<close>

text \<open>The verb \<open>%d\<close> of \<open>fmt.Sprintf\<close>: the decimal form of an integer.\<close>

definition digitChar :: "int \<Rightarrow> char" where
  "digitChar d = char_of (48 + d)"

function decimal :: "int \<Rightarrow> string" where
  "decimal n = (if n < 10 then [digitChar n] else decimal (n div 10) @ [digitChar (n mod 10)])"
  by pat_completeness auto
termination
  by (relation "measure nat") auto

declare decimal.simps [simp del]

definition formatInt :: "int \<Rightarrow> string" where
  "formatInt i = (if i < 0 then CHR ''-'' # decimal (- i) else decimal i)"

text \<open>Arithmetic on a Go \<open>int\<close> wraps around at 64 bits.\<close>

definition wrapInt :: "int \<Rightarrow> int" where
  "wrapInt x = (x + 2 ^ 63) mod 2 ^ 64 - 2 ^ 63"

subsection \<open>Decoded JSON\<close>

text \<open>
  What \<open>encoding/json\<close> decodes into an \<open>interface{}\<close>: \<open>nil\<close>, a \<open>bool\<close>, a \<open>float64\<close>
  (as its bit pattern), a \<open>string\<close>, a slice or a map with string keys. Looking up a
  key that a map does not hold gives \<open>nil\<close>, and a type assertion on a value of another
  type panics.
\<close>

datatype json =
  JNull | JBool bool | JNumber "64 word" | JString string
  | JArray "json list" | JObject "(string \<times> json) list"

datatype fault = Error string | Panic

definition lookupKey :: "(string \<times> json) list \<Rightarrow> string \<Rightarrow> json" where
  "lookupKey m k = (case map_of m k of None \<Rightarrow> JNull | Some v \<Rightarrow> v)"

definition asObject :: "json \<Rightarrow> (string \<times> json) list option" where
  "asObject j = (case j of JObject m \<Rightarrow> Some m | _ \<Rightarrow> None)"

definition asArray :: "json \<Rightarrow> json list option" where
  "asArray j = (case j of JArray xs \<Rightarrow> Some xs | _ \<Rightarrow> None)"

definition asString :: "json \<Rightarrow> string option" where
  "asString j = (case j of JString s \<Rightarrow> Some s | _ \<Rightarrow> None)"

definition asFloat :: "json \<Rightarrow> 64 word option" where
  "asFloat j = (case j of JNumber f \<Rightarrow> Some f | _ \<Rightarrow> None)"

subsection \<open>Collaborators\<close>

text \<open>
  The request sent to Elasticsearch and its answer. \<open>IsError\<close> holds of a status above
  299; \<open>Text\<close> is what \<open>res.String()\<close> prints.
\<close>

record ESQuery =
  From :: int
  Size :: int
  MultiMatchQuery :: string
  MultiMatchFields :: "string list"
  HighlightFields :: "string list"

record ESResponse =
  StatusCode :: int
  Body :: string
  Text :: string

definition IsError :: "ESResponse \<Rightarrow> bool" where
  "IsError res = (299 < StatusCode res)"

text \<open>
  Everything \<open>Search\<close> calls and the repository does not define: the Redis server, the
  JSON codec on the types involved (\<open>None\<close> or \<open>Inl\<close> when it returns an error), the
  Elasticsearch client (\<open>Inl\<close> when the request could not be made) and the conversion
  of a \<open>float64\<close> to an integer. An error is carried as its message.
\<close>

record Env =
  redis :: Redis
  unmarshalResult :: "string \<Rightarrow> SearchResult option"
  marshalResult :: "SearchResult \<Rightarrow> string option"
  encodeQuery :: "ESQuery \<Rightarrow> string + string"
  esSearch :: "string \<Rightarrow> string \<Rightarrow> string + ESResponse"
  decodeBody :: "string \<Rightarrow> string + (string \<times> json) list"
  floatToInt :: "64 word \<Rightarrow> int"

subsection \<open>\<open>Search\<close>\<close>

definition getSuggestions :: "string \<Rightarrow> string list" where
  "getSuggestions query = [query @ '' tutorial'', query @ '' example'', query @ '' docs'']"

definition cacheKey :: "string \<Rightarrow> int \<Rightarrow> int \<Rightarrow> string" where
  "cacheKey query page pageSize =
     ''search:'' @ query @ '':'' @ formatInt page @ '':'' @ formatInt pageSize"

definition cacheTTL :: int where
  "cacheTTL = 5 * 60 * 1000000000"

text \<open>One hit of the response; each type assertion that fails is a panic (\<open>None\<close>).\<close>

definition parseHit :: "json \<Rightarrow> Document option" where
  "parseHit hit =
     (case asObject hit of None \<Rightarrow> None | Some h \<Rightarrow>
      case asObject (lookupKey h ''_source'') of None \<Rightarrow> None | Some source \<Rightarrow>
      case asString (lookupKey h ''_id'') of None \<Rightarrow> None | Some docID \<Rightarrow>
      case asString (lookupKey source ''title'') of None \<Rightarrow> None | Some title \<Rightarrow>
      case asString (lookupKey source ''content'') of None \<Rightarrow> None | Some content \<Rightarrow>
      case asString (lookupKey source ''url'') of None \<Rightarrow> None | Some url \<Rightarrow>
      case asFloat (lookupKey h ''_score'') of None \<Rightarrow> None | Some score \<Rightarrow>
        Some \<lparr>ID = docID, Title = title, Content = content, URL = url, Score = score, Timestamp = 0\<rparr>)"

fun parseHits :: "json list \<Rightarrow> Document list \<Rightarrow> Document list option" where
  "parseHits [] documents = Some documents"
| "parseHits (hit # hits) documents =
     (case parseHit hit of
        None \<Rightarrow> None
      | Some doc \<Rightarrow> parseHits hits (documents @ [doc]))"

text \<open>Step 5 of \<open>Search\<close>: total, elapsed time and documents of a decoded response.\<close>

definition parseResponse :: "Env \<Rightarrow> (string \<times> json) list \<Rightarrow> (int \<times> int \<times> Document list) option" where
  "parseResponse env r =
     (case asObject (lookupKey r ''hits'') of None \<Rightarrow> None | Some hits \<Rightarrow>
      case asObject (lookupKey hits ''total'') of None \<Rightarrow> None | Some totalObj \<Rightarrow>
      case asFloat (lookupKey totalObj ''value'') of None \<Rightarrow> None | Some totalValue \<Rightarrow>
      case asFloat (lookupKey r ''took'') of None \<Rightarrow> None | Some tookValue \<Rightarrow>
      case asArray (lookupKey hits ''hits'') of None \<Rightarrow> None | Some hitList \<Rightarrow>
      case parseHits hitList [] of None \<Rightarrow> None | Some documents \<Rightarrow>
        Some (floatToInt env totalValue, floatToInt env tookValue, documents))"

text \<open>Step 1: the cached result, when the key is held and its value deserialises.\<close>

definition cachedResult :: "Env \<Rightarrow> string \<Rightarrow> SearchResult option" where
  "cachedResult env key =
     (case redisGet (redis env) key of
        Inl err \<Rightarrow> None
      | Inr val \<Rightarrow> unmarshalResult env val)"

definition buildQuery :: "string \<Rightarrow> int \<Rightarrow> int \<Rightarrow> ESQuery" where
  "buildQuery query page pageSize =
     \<lparr>From = wrapInt (wrapInt (page - 1) * pageSize), Size = pageSize,
      MultiMatchQuery = Join (Fields query) '' '',
      MultiMatchFields = [''title^3'', ''content''],
      HighlightFields = [''title'', ''content'']\<rparr>"

text \<open>
  Step 6 of \<open>Search\<close> starts a goroutine that is not waited for. It holds the cache key
  and \<open>result\<close>, the pointer that \<open>Search\<close> returns, and takes no copy of what the pointer
  leads to. The model returns it as a pending write: the key and the time to live.
  \<open>runWriteBack\<close> is what the goroutine does when it runs; \<open>current\<close> is what the pointer
  leads to at that moment, which is the result as \<open>Search\<close> returned it only if the
  caller has not assigned to it since. The error of \<open>json.Marshal\<close> is dropped (a failed
  serialisation leaves an empty byte slice), and so is the error of \<open>Set\<close>.
\<close>

datatype writeBack = WriteBackResult string int

fun runWriteBack :: "Env \<Rightarrow> SearchResult \<Rightarrow> Redis \<Rightarrow> writeBack \<Rightarrow> Redis" where
  "runWriteBack env current r (WriteBackResult key ttl) =
     redisSet r key (case marshalResult env current of None \<Rightarrow> [] | Some bytes \<Rightarrow> bytes) ttl"

fun runWriteBacks :: "Env \<Rightarrow> SearchResult \<Rightarrow> Redis \<Rightarrow> writeBack list \<Rightarrow> Redis" where
  "runWriteBacks env current r [] = r"
| "runWriteBacks env current r (t # ts) = runWriteBacks env current (runWriteBack env current r t) ts"

text \<open>
  \<open>Search\<close> returns its result or error (or panics), the requests it sent to
  Elasticsearch, each as index and body, and the pending writes it started. The result
  is what the returned pointer leads to when \<open>Search\<close> returns.
\<close>

definition Search ::
  "Env \<Rightarrow> string \<Rightarrow> int \<Rightarrow> int
     \<Rightarrow> (fault + SearchResult) \<times> (string \<times> string) list \<times> writeBack list" where
  "Search env query page pageSize =
     (case cachedResult env (cacheKey query page pageSize) of
        Some result \<Rightarrow> (Inr result, [], [])
      | None \<Rightarrow>
          (case encodeQuery env (buildQuery query page pageSize) of
             Inl err \<Rightarrow> (Inl (Error err), [], [])
           | Inr buf \<Rightarrow>
               (case esSearch env ''webpages'' buf of
                  Inl err \<Rightarrow> (Inl (Error err), [(''webpages'', buf)], [])
                | Inr res \<Rightarrow>
                    if IsError res then
                      (Inl (Error (''search request failed: '' @ Text res)), [(''webpages'', buf)], [])
                    else
                      (case decodeBody env (Body res) of
                         Inl err \<Rightarrow> (Inl (Error err), [(''webpages'', buf)], [])
                       | Inr r \<Rightarrow>
                           (case parseResponse env r of
                              None \<Rightarrow> (Inl Panic, [(''webpages'', buf)], [])
                            | Some (totalHits, took, documents) \<Rightarrow>
                                (Inr \<lparr>Total = totalHits, Hits = documents, Took = took,
                                      Suggestions = getSuggestions query\<rparr>,
                                 [(''webpages'', buf)],
                                 [WriteBackResult (cacheKey query page pageSize) cacheTTL]))))))"

section \<open>The HTTP handler (package \<open>api\<close>)\<close>

text \<open>
  Of a request the handler reads the query parameters and the client address that gin
  computes. \<open>c.Query\<close> gives the empty string for a parameter that is absent,
  \<open>c.DefaultQuery\<close> the default.
\<close>

record Request =
  Params :: "string \<rightharpoonup> string"
  ClientIP :: string

definition Query :: "Request \<Rightarrow> string \<Rightarrow> string" where
  "Query c key = (case Params c key of None \<Rightarrow> [] | Some v \<Rightarrow> v)"

definition DefaultQuery :: "Request \<Rightarrow> string \<Rightarrow> string \<Rightarrow> string" where
  "DefaultQuery c key defaultValue = (case Params c key of None \<Rightarrow> defaultValue | Some v \<Rightarrow> v)"

text \<open>
  \<open>SearchResponse\<close> embeds the \<open>SearchResult\<close> and adds two fields; the record extends
  the record of the result in the same way.
\<close>

record SearchResponse = SearchResult +
  Filtered :: bool
  Message :: string

datatype ResponseBody = ErrorBody string | ResultBody SearchResponse

record HTTPResponse =
  Status :: int
  JSON :: ResponseBody

text \<open>
  The handler holds the search service (here: what it calls), the IP service (here: the
  parser it calls, the service having no state) and the filter service.
\<close>

record Handler =
  svc :: Env
  ipSvc :: "string \<Rightarrow> IP option"
  filterSvc :: Service

text \<open>
  The notice of a filtered response: the UTF-8 bytes of one fixed Chinese sentence,
  "in accordance with the relevant laws, regulations and policies, some search results
  are not shown".
\<close>

definition filteredNotice :: string where
  "filteredNotice =
     [CHR 0xE6, CHR 0xA0, CHR 0xB9, CHR 0xE6, CHR 0x8D, CHR 0xAE, CHR 0xE7, CHR 0x9B, CHR 0xB8,
      CHR 0xE5, CHR 0x85, CHR 0xB3, CHR 0xE6, CHR 0xB3, CHR 0x95, CHR 0xE5, CHR 0xBE, CHR 0x8B,
      CHR 0xE6, CHR 0xB3, CHR 0x95, CHR 0xE8, CHR 0xA7, CHR 0x84, CHR 0xE5, CHR 0x92, CHR 0x8C,
      CHR 0xE6, CHR 0x94, CHR 0xBF, CHR 0xE7, CHR 0xAD, CHR 0x96, CHR 0xEF, CHR 0xBC, CHR 0x8C,
      CHR 0xE9, CHR 0x83, CHR 0xA8, CHR 0xE5, CHR 0x88, CHR 0x86, CHR 0xE6, CHR 0x90, CHR 0x9C,
      CHR 0xE7, CHR 0xB4, CHR 0xA2, CHR 0xE7, CHR 0xBB, CHR 0x93, CHR 0xE6, CHR 0x9E, CHR 0x9C,
      CHR 0xE6, CHR 0x9C, CHR 0xAA, CHR 0xE4, CHR 0xBA, CHR 0x88, CHR 0xE6, CHR 0x98, CHR 0xBE,
      CHR 0xE7, CHR 0xA4, CHR 0xBA, CHR 0xE3, CHR 0x80, CHR 0x82]"

text \<open>
  The last part of the handler: the response for a result, given whether the caller is
  in the restricted region. The response starts as the result with \<open>Filtered\<close> false and
  no message; when the filter removed something, \<open>Hits\<close>, \<open>Filtered\<close> and \<open>Message\<close> are
  assigned.
\<close>

definition shapeResponse :: "Service \<Rightarrow> bool \<Rightarrow> SearchResult \<Rightarrow> SearchResponse" where
  "shapeResponse f isCN result =
     (let response = \<lparr>Total = Total result, Hits = Hits result, Took = Took result,
                       Suggestions = Suggestions result, Filtered = False, Message = []\<rparr>
      in if isCN then
           (case Filter f (Hits result) of
              (filteredHits, count) \<Rightarrow>
                if 0 < count then
                  response\<lparr>Hits := filteredHits, Filtered := True, Message := filteredNotice\<rparr>
                else response)
         else response)"

text \<open>
  \<open>SearchResponse\<close> embeds the result by pointer, the pointer \<open>Search\<close> returned, so the
  assignment \<open>response.Hits = filteredHits\<close> writes into the object that the pending
  write of \<open>Search\<close> serialises when it runs. \<open>resultObject\<close> is what that pointer leads
  to once the response is shaped: the first four fields of the response.
\<close>

definition resultObject :: "SearchResponse \<Rightarrow> SearchResult" where
  "resultObject response =
     \<lparr>Total = Total response, Hits = Hits response, Took = Took response,
      Suggestions = Suggestions response\<rparr>"

text \<open>
  \<open>Handler.Search\<close>. The first component is the response written, \<open>None\<close> when the
  handler panicked. The second and third are the requests sent to Elasticsearch and the
  pending writes that \<open>Search\<close> started. The fourth is what the pointer returned by
  \<open>Search\<close> leads to when the handler returns, \<open>None\<close> when \<open>Search\<close> returned no result:
  a pending write that runs after the handler serialises this value, one that runs
  before the handler assigns \<open>Hits\<close> serialises the result as \<open>Search\<close> returned it.
\<close>

definition Handler_Search ::
  "Handler \<Rightarrow> Request
     \<Rightarrow> HTTPResponse option \<times> (string \<times> string) list \<times> writeBack list \<times> SearchResult option" where
  "Handler_Search h c =
     (case validateSearchInput (Query c ''q'') of
        (query, valid) \<Rightarrow>
          if valid then
            (case validatePagination (DefaultQuery c ''page'' ''1'') (DefaultQuery c ''size'' ''10'') of
               (page, pageSize) \<Rightarrow>
                 (case Search (svc h) query page pageSize of
                    (Inl (Error err), calls, tasks) \<Rightarrow>
                      (Some \<lparr>Status = 500, JSON = ErrorBody ''internal server error''\<rparr>,
                       calls, tasks, None)
                  | (Inl Panic, calls, tasks) \<Rightarrow> (None, calls, tasks, None)
                  | (Inr result, calls, tasks) \<Rightarrow>
                      (case IsChinaMainland (ipSvc h) (ClientIP c) of
                         Inl p \<Rightarrow> (None, calls, tasks, Some result)
                       | Inr isCN \<Rightarrow>
                           (Some \<lparr>Status = 200,
                                  JSON = ResultBody (shapeResponse (filterSvc h) isCN result)\<rparr>,
                            calls, tasks,
                            Some (resultObject (shapeResponse (filterSvc h) isCN result))))))
          else (Some \<lparr>Status = 400, JSON = ErrorBody ''invalid query parameter''\<rparr>, [], [], None))"

section \<open>Example inputs\<close>

definition docSafe :: Document where
  "docSafe = \<lparr>ID = ''1'', Title = ''Go tutorial'', Content = ''Learn Go in ten steps'',
     URL = ''https://go.dev/doc'', Score = 0, Timestamp = 0\<rparr>"

definition docKeyword :: Document where
  "docKeyword = \<lparr>ID = ''2'', Title = ''xxx videos'', Content = ''nothing here'',
     URL = ''https://example.org/v'', Score = 0, Timestamp = 0\<rparr>"

definition docDomain :: Document where
  "docDomain = \<lparr>ID = ''3'', Title = ''Welcome'', Content = ''a landing page'',
     URL = ''http://bad-content.org/index.html'', Score = 0, Timestamp = 0\<rparr>"

definition emptyService :: Service where
  "emptyService = \<lparr>blockedDomains = []\<rparr>"

text \<open>
  The conversion of a \<open>float64\<close> to an integer as the amd64 compiler does it: the value
  is truncated towards zero, and a NaN, an infinity or a value out of range gives the
  least integer.
\<close>

definition float64ToInt :: "64 word \<Rightarrow> int" where
  "float64ToInt f =
     (let e = (uint f div 2 ^ 52) mod 2 ^ 11;
          m = uint f mod 2 ^ 52;
          mag = (if 1075 \<le> e then (2 ^ 52 + m) * 2 ^ nat (e - 1075)
                 else (2 ^ 52 + m) div 2 ^ nat (1075 - e))
      in if e = 2047 then - (2 ^ 63)
         else if e < 1023 then 0
         else if 2 ^ 63 \<le> mag then - (2 ^ 63)
         else if 2 ^ 63 \<le> uint f then - mag
         else mag)"

definition exampleResult :: SearchResult where
  "exampleResult =
     \<lparr>Total = 3, Hits = [docSafe, docDomain, docKeyword], Took = 4,
      Suggestions = getSuggestions ''hello''\<rparr>"

text \<open>
  A server whose cache holds \<open>exampleResult\<close> for the query \<open>hello\<close>, page 1, size 10, and
  whose Elasticsearch cannot be reached. The codec knows one serialised result.
\<close>

definition warmEnv :: Env where
  "warmEnv =
     \<lparr>redis = \<lparr>entries = [''search:hello:1:10'' \<mapsto> (''cached-result'', cacheTTL)], reachable = True\<rparr>,
      unmarshalResult = (\<lambda>s. if s = ''cached-result'' then Some exampleResult else None),
      marshalResult = (\<lambda>r. if r = exampleResult then Some ''cached-result'' else None),
      encodeQuery = (\<lambda>q. Inr (''match '' @ MultiMatchQuery q)),
      esSearch = (\<lambda>index body. Inl ''connection refused''),
      decodeBody = (\<lambda>body. Inl ''unexpected end of JSON input''),
      floatToInt = float64ToInt\<rparr>"

text \<open>The same server with an empty cache.\<close>

definition coldEnv :: Env where
  "coldEnv = warmEnv\<lparr>redis := \<lparr>entries = Map.empty, reachable = True\<rparr>\<rparr>"

text \<open>
  A server with an empty cache whose Elasticsearch answers the query \<open>go\<close> with two hits,
  the second from a blocked domain: total 2.0, took 4.0, scores 1.5 and 1.0, as bit
  patterns. \<open>liveResult\<close> is what \<open>Search\<close> makes of the answer, \<open>liveFiltered\<close> the same
  with the hits the filter keeps. The codec knows these two results.
\<close>

definition liveHit :: json where
  "liveHit =
     JObject [(''_id'', JString ''1''), (''_score'', JNumber 0x3FF8000000000000),
              (''_source'', JObject [(''title'', JString ''Go tutorial''),
                                     (''content'', JString ''Learn Go in ten steps''),
                                     (''url'', JString ''https://go.dev/doc'')])]"

definition liveHitBlocked :: json where
  "liveHitBlocked =
     JObject [(''_id'', JString ''2''), (''_score'', JNumber 0x3FF0000000000000),
              (''_source'', JObject [(''title'', JString ''Go downloads''),
                                     (''content'', JString ''mirror of the installers''),
                                     (''url'', JString ''http://bad-content.org/go'')])]"

definition liveDoc :: Document where
  "liveDoc =
     \<lparr>ID = ''1'', Title = ''Go tutorial'', Content = ''Learn Go in ten steps'',
      URL = ''https://go.dev/doc'', Score = 0x3FF8000000000000, Timestamp = 0\<rparr>"

definition liveDocBlocked :: Document where
  "liveDocBlocked =
     \<lparr>ID = ''2'', Title = ''Go downloads'', Content = ''mirror of the installers'',
      URL = ''http://bad-content.org/go'', Score = 0x3FF0000000000000, Timestamp = 0\<rparr>"

definition liveResult :: SearchResult where
  "liveResult =
     \<lparr>Total = 2, Hits = [liveDoc, liveDocBlocked], Took = 4, Suggestions = getSuggestions ''go''\<rparr>"

definition liveFiltered :: SearchResult where
  "liveFiltered =
     \<lparr>Total = 2, Hits = [liveDoc], Took = 4, Suggestions = getSuggestions ''go''\<rparr>"

definition liveEnv :: Env where
  "liveEnv =
     \<lparr>redis = \<lparr>entries = Map.empty, reachable = True\<rparr>,
      unmarshalResult =
        (\<lambda>s. if s = ''live-result'' then Some liveResult
             else if s = ''live-filtered'' then Some liveFiltered
             else None),
      marshalResult =
        (\<lambda>r. if r = liveResult then Some ''live-result''
             else if r = liveFiltered then Some ''live-filtered''
             else None),
      encodeQuery = (\<lambda>q. Inr (''match '' @ MultiMatchQuery q)),
      esSearch = (\<lambda>index body. Inr \<lparr>StatusCode = 200, Body = ''two hits'', Text = ''[200 OK] two hits''\<rparr>),
      decodeBody =
        (\<lambda>body. Inr [(''took'', JNumber 0x4010000000000000),
                      (''hits'', JObject [(''total'', JObject [(''value'', JNumber 0x4000000000000000)]),
                                          (''hits'', JArray [liveHit, liveHitBlocked])])]),
      floatToInt = float64ToInt\<rparr>"

text \<open>A handler over the warm server, and a request for \<open>hello\<close> from a private address.\<close>

definition exampleHandler :: Handler where
  "exampleHandler = \<lparr>svc = warmEnv, ipSvc = ParseIP, filterSvc = NewService\<rparr>"

definition exampleRequest :: Request where
  "exampleRequest = \<lparr>Params = [''q'' \<mapsto> ''  hello ''], ClientIP = ''192.168.1.10''\<rparr>"

text \<open>A handler over the live server, and a request for \<open>go\<close> from a private address.\<close>

definition liveHandler :: Handler where
  "liveHandler = \<lparr>svc = liveEnv, ipSvc = ParseIP, filterSvc = NewService\<rparr>"

definition liveRequest :: Request where
  "liveRequest = \<lparr>Params = [''q'' \<mapsto> ''go''], ClientIP = ''192.168.1.10''\<rparr>"

section \<open>Properties of the content moderator\<close>

lemma Filter_loop_eq:
  "Filter_loop s results acc n =
     (acc @ filter (\<lambda>d. \<not> isBlocked s d) results, n + int (length (filter (isBlocked s) results)))"
  by (induction results arbitrary: acc n) simp_all

lemma Filter_eq:
  "Filter s results =
     (filter (\<lambda>d. \<not> isBlocked s d) results, int (length (filter (isBlocked s) results)))"
  by (simp add: Filter_def Filter_loop_eq)

lemma Filter_length_sum:
  "int (length (fst (Filter s results))) + snd (Filter s results) = int (length results)"
proof -
  have "length (filter (\<lambda>d. \<not> isBlocked s d) results) + length (filter (isBlocked s) results)
        = length results"
    using sum_length_filter_compl [of "isBlocked s" results] by simp
  then have "int (length (filter (\<lambda>d. \<not> isBlocked s d) results))
        + int (length (filter (isBlocked s) results)) = int (length results)"
    by linarith
  then show ?thesis by (simp add: Filter_eq)
qed

text \<open>
  Claim C1. \<open>Filter\<close> returns the kept documents and the number removed; the two add up
  to the length of the input, and the kept documents are a subsequence of the input:
  they appear in their original relative order.
\<close>

theorem Filter_count_and_order:
  "int (length (fst (Filter s results))) + snd (Filter s results) = int (length results)
   \<and> subseq (fst (Filter s results)) results"
  by (simp add: Filter_length_sum) (simp add: Filter_eq)

text \<open>
  Claim C8. \<open>Filter\<close> is idempotent: run on the documents it kept, it keeps all of them
  and removes none.
\<close>

theorem Filter_idempotent:
  "Filter s (fst (Filter s results)) = (fst (Filter s results), 0)"
  by (simp add: Filter_eq)

text \<open>
  Claim C4, as stated, fails: with an empty set of blocked domains \<open>isBlocked\<close> still
  runs its keyword loop. A single document whose title contains \<open>xxx\<close> is removed.
\<close>

theorem Filter_empty_blocklist_counterexample:
  "blockedDomains emptyService = []
   \<and> Filter emptyService [docKeyword] = ([], 1)
   \<and> Filter emptyService [docKeyword] \<noteq> ([docKeyword], 0)"
  by (simp add: emptyService_def docKeyword_def Filter_def isBlocked_def sensitiveKeywords_def)

lemma isBlocked_no_domains:
  "blockedDomains s = [] \<Longrightarrow> isBlocked s doc = isBlocked_keywords sensitiveKeywords doc"
  by (simp add: isBlocked_def)

text \<open>
  Claim C4, amended. With an empty set of blocked domains \<open>Filter\<close> removes exactly the
  documents whose title or content contains one of the fixed keywords; it returns the
  sequence unchanged with count 0 exactly when no document contains a keyword. It has
  no error result.
\<close>

theorem Filter_empty_blocklist:
  assumes "blockedDomains s = []"
  shows "Filter s results =
           (filter (\<lambda>d. \<not> isBlocked_keywords sensitiveKeywords d) results,
            int (length (filter (isBlocked_keywords sensitiveKeywords) results)))
         \<and> ((Filter s results = (results, 0))
              = list_all (\<lambda>d. \<not> isBlocked_keywords sensitiveKeywords d) results)"
proof -
  let ?kw = "isBlocked_keywords sensitiveKeywords"
  from assms have eq: "isBlocked s = ?kw"
    by (simp add: isBlocked_no_domains fun_eq_iff)
  have first: "Filter s results = (filter (\<lambda>d. \<not> ?kw d) results, int (length (filter ?kw results)))"
    by (simp add: Filter_eq eq)
  have "(filter (\<lambda>d. \<not> ?kw d) results = results) = list_all (\<lambda>d. \<not> ?kw d) results"
    by (simp add: filter_id_conv list_all_iff)
  moreover have "list_all (\<lambda>d. \<not> ?kw d) results \<Longrightarrow> filter ?kw results = []"
    by (simp add: list_all_iff filter_empty_conv)
  ultimately have "(Filter s results = (results, 0)) = list_all (\<lambda>d. \<not> ?kw d) results"
    unfolding first by auto
  with first show ?thesis by simp
qed

theorem Filter_empty_blocklist_witness:
  "blockedDomains emptyService = []
   \<and> list_all (\<lambda>d. \<not> isBlocked_keywords sensitiveKeywords d) [docSafe, docDomain]
   \<and> Filter emptyService [docSafe, docDomain] = ([docSafe, docDomain], 0)"
proof -
  have h: "blockedDomains emptyService = []"
    by (simp add: emptyService_def)
  have clean: "list_all (\<lambda>d. \<not> isBlocked_keywords sensitiveKeywords d) [docSafe, docDomain]"
    by (simp add: sensitiveKeywords_def docSafe_def docDomain_def)
  from Filter_empty_blocklist [OF h, of "[docSafe, docDomain]"] clean
  have "Filter emptyService [docSafe, docDomain] = ([docSafe, docDomain], 0)"
    by blast
  with h clean show ?thesis by blast
qed

section \<open>Properties of the input validator\<close>

subsection \<open>Escaping never shortens\<close>

lemma escapeByte_ge1: "1 \<le> length (escapeByte c)"
  by (simp add: escapeByte_def)

lemma escapeByte_special: "htmlSpecial c \<Longrightarrow> 1 < length (escapeByte c)"
  by (auto simp add: htmlSpecial_def escapeByte_def)

lemma escapeByte_plain: "\<not> htmlSpecial c \<Longrightarrow> escapeByte c = [c]"
  by (simp add: htmlSpecial_def escapeByte_def)

lemma EscapeString_Cons: "EscapeString (c # s) = escapeByte c @ EscapeString s"
  by (simp add: EscapeString_def)

lemma EscapeString_length_ge: "length s \<le> length (EscapeString s)"
proof (induction s)
  case Nil
  show ?case by (simp add: EscapeString_def)
next
  case (Cons c s)
  have "1 \<le> length (escapeByte c)" by (rule escapeByte_ge1)
  with Cons show ?case unfolding EscapeString_Cons by simp
qed

lemma EscapeString_length_eq:
  "(length (EscapeString s) = length s) = list_all (\<lambda>c. \<not> htmlSpecial c) s"
proof (induction s)
  case Nil
  show ?case by (simp add: EscapeString_def)
next
  case (Cons c s)
  have ge: "length s \<le> length (EscapeString s)" by (rule EscapeString_length_ge)
  show ?case
  proof (cases "htmlSpecial c")
    case True
    then have "1 < length (escapeByte c)" by (rule escapeByte_special)
    with ge True show ?thesis unfolding EscapeString_Cons by simp
  next
    case False
    then have "escapeByte c = [c]" by (rule escapeByte_plain)
    with Cons False show ?thesis unfolding EscapeString_Cons by simp
  qed
qed

subsection \<open>Long queries\<close>

text \<open>
  Claim C3, as stated, fails in two ways. A raw query of 101 bytes \<open><\<close> is cut to 100
  bytes and then escaped, four bytes for each, so the result has 400 bytes. A raw query
  of one letter followed by 100 spaces is longer than 100 bytes, its trimmed form is
  the letter alone, and so is the result.
\<close>

theorem validateSearchInput_length_counterexample:
  "100 < length (replicate 101 (CHR ''<''))
   \<and> TrimSpace (replicate 101 (CHR ''<'')) \<noteq> []
   \<and> length (fst (validateSearchInput (replicate 101 (CHR ''<'')))) = 400
   \<and> 100 < length (CHR ''a'' # replicate 100 (CHR '' ''))
   \<and> TrimSpace (CHR ''a'' # replicate 100 (CHR '' '')) \<noteq> []
   \<and> validateSearchInput (CHR ''a'' # replicate 100 (CHR '' '')) = (''a'', True)"
  by code_simp

text \<open>
  Claim C3, amended. When the trimmed query is longer than 100 bytes, the result is
  accepted and is the escaped form of the first 100 bytes of the trimmed query. Its
  length is at least 100, and exactly 100 when none of those 100 bytes is one of the
  five bytes that \<open>html.EscapeString\<close> replaces.
\<close>

theorem validateSearchInput_long:
  assumes "100 < length (TrimSpace query)"
  shows "validateSearchInput query = (EscapeString (take 100 (TrimSpace query)), True)
         \<and> 100 \<le> length (fst (validateSearchInput query))
         \<and> ((length (fst (validateSearchInput query)) = 100)
              = list_all (\<lambda>c. \<not> htmlSpecial c) (take 100 (TrimSpace query)))"
proof -
  let ?cut = "take 100 (TrimSpace query)"
  from assms have len: "length ?cut = 100" by simp
  from assms have "TrimSpace query \<noteq> []" by auto
  with assms have val: "validateSearchInput query = (EscapeString ?cut, True)"
    by (simp add: validateSearchInput_def Let_def)
  have "length ?cut \<le> length (EscapeString ?cut)" by (rule EscapeString_length_ge)
  with len have ge: "100 \<le> length (EscapeString ?cut)" by simp
  have "(length (EscapeString ?cut) = length ?cut) = list_all (\<lambda>c. \<not> htmlSpecial c) ?cut"
    by (rule EscapeString_length_eq)
  with len have "(length (EscapeString ?cut) = 100) = list_all (\<lambda>c. \<not> htmlSpecial c) ?cut"
    by simp
  with val ge show ?thesis by simp
qed

text \<open>The witness is the input of the repository's own test: 150 zero bytes.\<close>

theorem validateSearchInput_long_witness:
  "100 < length (TrimSpace (replicate 150 (CHR 0x00)))
   \<and> length (fst (validateSearchInput (replicate 150 (CHR 0x00)))) = 100
   \<and> snd (validateSearchInput (replicate 150 (CHR 0x00)))"
proof -
  have h: "100 < length (TrimSpace (replicate 150 (CHR 0x00)))"
    by code_simp
  have plain: "list_all (\<lambda>c. \<not> htmlSpecial c) (take 100 (TrimSpace (replicate 150 (CHR 0x00))))"
    by code_simp
  note long = validateSearchInput_long [OF h]
  from long plain have "length (fst (validateSearchInput (replicate 150 (CHR 0x00)))) = 100"
    by blast
  moreover from long have "snd (validateSearchInput (replicate 150 (CHR 0x00)))"
    by simp
  ultimately show ?thesis using h by blast
qed

subsection \<open>Pagination\<close>

lemma digitVal_range: "isDigit c \<Longrightarrow> 0 \<le> digitVal c \<and> digitVal c \<le> 9"
  by (auto simp: isDigit_def digitVal_def)

lemma decimalValue_ge: "list_all isDigit cs \<Longrightarrow> 0 \<le> n \<Longrightarrow> n \<le> decimalValue cs n"
proof (induction cs arbitrary: n)
  case Nil
  show ?case by simp
next
  case (Cons c cs)
  from Cons.prems have d: "0 \<le> digitVal c" by (simp add: digitVal_range)
  with Cons.prems have "n \<le> n * 10 + digitVal c" by simp
  also have "\<dots> \<le> decimalValue cs (n * 10 + digitVal c)"
    using Cons.prems d by (intro Cons.IH) auto
  finally show ?case by simp
qed

text \<open>On digits, the loop of \<open>ParseUint\<close> computes the decimal value or reports that it left 64 bits.\<close>

lemma ParseUint_loop_digits:
  "list_all isDigit cs \<Longrightarrow> 0 \<le> n \<Longrightarrow> n \<le> maxUint64 \<Longrightarrow>
     ParseUint_loop cs n =
       (if decimalValue cs n \<le> maxUint64 then Inr (decimalValue cs n) else Inl ErrRange)"
proof (induction cs arbitrary: n)
  case Nil
  then show ?case by simp
next
  case (Cons c cs)
  from Cons.prems have dig: "isDigit c" and rest: "list_all isDigit cs" by simp_all
  from dig have d: "0 \<le> digitVal c" "digitVal c \<le> 9" by (simp_all add: digitVal_range)
  let ?n1 = "n * 10 + digitVal c"
  have n1: "0 \<le> ?n1" using Cons.prems d by simp
  have ge: "?n1 \<le> decimalValue cs ?n1" using rest n1 by (rule decimalValue_ge)
  show ?case
  proof (cases "maxUint64 div 10 + 1 \<le> n")
    case True
    then have "maxUint64 < ?n1" using d by (simp add: maxUint64_def)
    with ge have "\<not> decimalValue (c # cs) n \<le> maxUint64" by simp
    with True dig show ?thesis by simp
  next
    case False
    show ?thesis
    proof (cases "maxUint64 < ?n1")
      case True
      with ge have "\<not> decimalValue (c # cs) n \<le> maxUint64" by simp
      with True False dig show ?thesis by simp
    next
      case fits: False
      have "ParseUint_loop (c # cs) n = ParseUint_loop cs ?n1"
        using dig False fits by simp
      also have "\<dots> = (if decimalValue cs ?n1 \<le> maxUint64 then Inr (decimalValue cs ?n1)
                       else Inl ErrRange)"
        using rest n1 fits by (intro Cons.IH) simp_all
      finally show ?thesis by simp
    qed
  qed
qed

lemma ParseUint_loop_nondigit:
  "\<not> list_all isDigit cs \<Longrightarrow> \<exists>e. ParseUint_loop cs n = Inl e"
  by (induction cs arbitrary: n) auto

text \<open>\<open>Atoi\<close> on a numeric string: the requested value when it fits an \<open>int\<close>, a range error otherwise.\<close>

lemma Atoi_numeric:
  assumes "isNumeric s"
  shows "Atoi s =
     (if - (2 ^ 63) \<le> requestedValue s \<and> requestedValue s < 2 ^ 63 then Inr (requestedValue s)
      else Inl ErrRange)"
proof -
  let ?u = "unsignedPart s"
  let ?v = "decimalValue ?u 0"
  from assms have u: "?u \<noteq> []" and digs: "list_all isDigit ?u" by (simp_all add: isNumeric_def)
  from u have s: "s \<noteq> []" by (auto simp: unsignedPart_def)
  have v0: "0 \<le> ?v" using decimalValue_ge [OF digs, of 0] by simp
  have pu: "ParseUint ?u = (if ?v \<le> maxUint64 then Inr ?v else Inl ErrRange)"
    using u ParseUint_loop_digits [OF digs, of 0] by (simp add: ParseUint_def maxUint64_def)
  show ?thesis
  proof (cases "?v \<le> maxUint64")
    case True
    with pu s v0 show ?thesis
      by (auto simp add: Atoi_def requestedValue_def intSize_def)
  next
    case False
    then have "2 ^ 63 \<le> ?v" by (simp add: maxUint64_def)
    with False pu s show ?thesis
      by (auto simp add: Atoi_def requestedValue_def intSize_def maxUint64_def)
  qed
qed

lemma Atoi_nonnumeric:
  assumes "\<not> isNumeric s"
  shows "\<exists>e. Atoi s = Inl e"
proof (cases "s = []")
  case True
  then show ?thesis by (simp add: Atoi_def)
next
  case False
  show ?thesis
  proof (cases "unsignedPart s = []")
    case True
    with False show ?thesis by (simp add: Atoi_def ParseUint_def)
  next
    case u: False
    with assms have "\<not> list_all isDigit (unsignedPart s)" by (simp add: isNumeric_def)
    then obtain e where "ParseUint_loop (unsignedPart s) 0 = Inl e"
      using ParseUint_loop_nondigit by blast
    with False u show ?thesis by (simp add: Atoi_def ParseUint_def)
  qed
qed

lemma validatePagination_page:
  "fst (validatePagination pageStr sizeStr) =
     (case Atoi pageStr of Inl err \<Rightarrow> 1 | Inr p \<Rightarrow> if p < 1 then 1 else p)"
  by (simp add: validatePagination_def Let_def)

lemma validatePagination_size:
  "snd (validatePagination pageStr sizeStr) =
     (case Atoi sizeStr of Inl err \<Rightarrow> 10
      | Inr n \<Rightarrow> if n < 1 then 10 else if 50 < n then 50 else n)"
  by (simp add: validatePagination_def Let_def split: sum.splits)

text \<open>
  Claim C6, as stated, fails at one point: a size string that is numeric and requests
  more than 50, but more than an \<open>int\<close> holds, makes \<open>Atoi\<close> fail with a range error, and
  the size is then the default 10, not 50.
\<close>

theorem validatePagination_huge_size_counterexample:
  "isNumeric ''99999999999999999999''
   \<and> 50 < requestedValue ''99999999999999999999''
   \<and> validatePagination ''1'' ''99999999999999999999'' = (1, 10)"
  by code_simp

text \<open>
  Claim C6, amended. For every pair of raw strings the page is at least 1 and the size
  is between 1 and 50, and the function has no error result. A page string that is not
  numeric or requests less than 1 yields page 1. A size string that is not numeric or
  requests less than 1 yields size 10. A numeric size string that requests more than 50
  yields 50 when the request fits an \<open>int\<close> (below \<open>2 ^ 63\<close>), and the default 10 when it
  does not.
\<close>

theorem validatePagination_bounds:
  "1 \<le> fst (validatePagination pageStr sizeStr)
   \<and> 1 \<le> snd (validatePagination pageStr sizeStr)
   \<and> snd (validatePagination pageStr sizeStr) \<le> 50
   \<and> (\<not> isNumeric pageStr \<or> requestedValue pageStr < 1
        \<longrightarrow> fst (validatePagination pageStr sizeStr) = 1)
   \<and> (\<not> isNumeric sizeStr \<or> requestedValue sizeStr < 1
        \<longrightarrow> snd (validatePagination pageStr sizeStr) = 10)
   \<and> (isNumeric sizeStr \<and> 50 < requestedValue sizeStr \<and> requestedValue sizeStr < 2 ^ 63
        \<longrightarrow> snd (validatePagination pageStr sizeStr) = 50)
   \<and> (isNumeric sizeStr \<and> 2 ^ 63 \<le> requestedValue sizeStr
        \<longrightarrow> snd (validatePagination pageStr sizeStr) = 10)"
proof -
  have page_ge: "1 \<le> fst (validatePagination pageStr sizeStr)"
    by (simp add: validatePagination_page split: sum.splits)
  have size_ge: "1 \<le> snd (validatePagination pageStr sizeStr)"
    by (simp add: validatePagination_size split: sum.splits)
  have size_le: "snd (validatePagination pageStr sizeStr) \<le> 50"
    by (simp add: validatePagination_size split: sum.splits)
  have page_default: "fst (validatePagination pageStr sizeStr) = 1"
    if "\<not> isNumeric pageStr \<or> requestedValue pageStr < 1"
  proof (cases "isNumeric pageStr")
    case True
    with that have "requestedValue pageStr < 1" by simp
    with Atoi_numeric [OF True] show ?thesis
      by (simp add: validatePagination_page split: if_splits)
  next
    case False
    then obtain e where "Atoi pageStr = Inl e" using Atoi_nonnumeric by blast
    then show ?thesis by (simp add: validatePagination_page)
  qed
  have size_default: "snd (validatePagination pageStr sizeStr) = 10"
    if "\<not> isNumeric sizeStr \<or> requestedValue sizeStr < 1"
  proof (cases "isNumeric sizeStr")
    case True
    with that have "requestedValue sizeStr < 1" by simp
    with Atoi_numeric [OF True] show ?thesis
      by (simp add: validatePagination_size split: if_splits)
  next
    case False
    then obtain e where "Atoi sizeStr = Inl e" using Atoi_nonnumeric by blast
    then show ?thesis by (simp add: validatePagination_size)
  qed
  have size_cap: "snd (validatePagination pageStr sizeStr) = 50"
    if "isNumeric sizeStr \<and> 50 < requestedValue sizeStr \<and> requestedValue sizeStr < 2 ^ 63"
  proof -
    from that have "Atoi sizeStr = Inr (requestedValue sizeStr)"
      using Atoi_numeric [of sizeStr] by simp
    with that show ?thesis by (simp add: validatePagination_size)
  qed
  have size_range: "snd (validatePagination pageStr sizeStr) = 10"
    if "isNumeric sizeStr \<and> 2 ^ 63 \<le> requestedValue sizeStr"
  proof -
    from that have "Atoi sizeStr = Inl ErrRange"
      using Atoi_numeric [of sizeStr] by simp
    then show ?thesis by (simp add: validatePagination_size)
  qed
  from page_ge size_ge size_le page_default size_default size_cap size_range
  show ?thesis by blast
qed

text \<open>The witness is the scenario of the specification: page \<open>abc\<close>, size \<open>1000\<close>.\<close>

theorem validatePagination_bounds_witness:
  "\<not> isNumeric ''abc''
   \<and> isNumeric ''1000'' \<and> 50 < requestedValue ''1000'' \<and> requestedValue ''1000'' < 2 ^ 63
   \<and> validatePagination ''abc'' ''1000'' = (1, 50)"
proof -
  have page: "\<not> isNumeric ''abc''"
    by code_simp
  have size: "isNumeric ''1000'' \<and> 50 < requestedValue ''1000'' \<and> requestedValue ''1000'' < 2 ^ 63"
    by code_simp
  note bounds = validatePagination_bounds [of "''abc''" "''1000''"]
  from bounds page have "fst (validatePagination ''abc'' ''1000'') = 1"
    by blast
  moreover from bounds size have "snd (validatePagination ''abc'' ''1000'') = 50"
    by blast
  ultimately have "validatePagination ''abc'' ''1000'' = (1, 50)"
    by (simp add: prod_eq_iff)
  with page size show ?thesis by blast
qed

section \<open>Properties of the geo classifier\<close>

lemma To4_Some_length: "To4 ip = Some ip4 \<Longrightarrow> length ip4 = 4"
  by (auto simp: To4_def split: if_splits)

lemma length4_bytes: "length (ip4 :: IP) = 4 \<Longrightarrow> \<exists>a b c d. ip4 = [a, b, c, d]"
  by (cases ip4; simp; rename_tac ys; case_tac ys; simp; rename_tac zs; case_tac zs; simp;
      rename_tac ws; case_tac ws; simp)

lemma To4_Some_bytes: "To4 ip = Some ip4 \<Longrightarrow> \<exists>a b c d. ip4 = [a, b, c, d]"
  by (rule length4_bytes) (rule To4_Some_length)

lemma IsLoopback_v4: "To4 ip = Some [a, b, c, d] \<Longrightarrow> IsLoopback ip = Inr (a = 127)"
  by (simp add: IsLoopback_def byteIs_def)

lemma isPrivateIP_v4:
  "To4 ip = Some [a, b, c, d] \<Longrightarrow>
     isPrivateIP ip = Inr (a = 10 \<or> (a = 172 \<and> 16 \<le> b \<and> b \<le> 31) \<or> (a = 192 \<and> b = 168))"
  by (simp add: isPrivateIP_def byteIs_def orElse_def andAlso_def)

lemma Equal_loopback: "To4 ip = None \<Longrightarrow> Equal ip IPv6loopback = (ip = IPv6loopback)"
  by (auto simp: Equal_def To4_def IPv6loopback_def split: if_splits)

lemma IsLoopback_v6: "To4 ip = None \<Longrightarrow> IsLoopback ip = Inr (ip = IPv6loopback)"
  by (simp add: IsLoopback_def Equal_loopback)

lemma isPrivateIP_v6: "To4 ip = None \<Longrightarrow> isPrivateIP ip = Inr False"
  by (simp add: isPrivateIP_def)

lemma To4_loopback: "To4 IPv6loopback = None"
  by (simp add: To4_def IPv6loopback_def isZeros_def)

lemma classify_v4:
  assumes "ipStr \<noteq> ''::1''" "parse ipStr = Some ip" "To4 ip = Some [a, b, c, d]"
  shows "IsChinaMainland parse ipStr = Inr (loopbackOrPrivateV4 a b \<or> inRangeTable a)"
  using assms
  by (auto simp add: IsChinaMainland_def IsLoopback_v4 isPrivateIP_v4 orElse_def andAlso_def
      byteIs_def loopbackOrPrivateV4_def inRangeTable_def)

lemma classify_v6:
  assumes "ipStr \<noteq> ''::1''" "parse ipStr = Some ip" "To4 ip = None"
  shows "IsChinaMainland parse ipStr = Inr (ip = IPv6loopback)"
  using assms
  by (simp add: IsChinaMainland_def IsLoopback_v6 isPrivateIP_v6 orElse_def)

lemma classify_unparsable:
  assumes "ipStr \<noteq> ''::1''" "parse ipStr = None"
  shows "IsChinaMainland parse ipStr = Inr False"
  using assms by (simp add: IsChinaMainland_def)

lemma classify_literal: "IsChinaMainland parse ''::1'' = Inr True"
  by (simp add: IsChinaMainland_def)

lemma uniqueLocalV6_not_v4: "uniqueLocalV6 ip \<Longrightarrow> To4 ip = None"
  by (cases ip) (auto simp add: uniqueLocalV6_def To4_def isZeros_def)

lemma uniqueLocalV6_not_loopback: "uniqueLocalV6 ip \<Longrightarrow> ip \<noteq> IPv6loopback"
  by (auto simp add: uniqueLocalV6_def IPv6loopback_def)

text \<open>
  Claim C7, as stated, fails for the private range of IPv6: \<open>isPrivateIP\<close> tests IPv4
  addresses only and returns false for every other address. The unique local address
  \<open>fc00::1\<close> parses, is private, and is classified as not restricted.
\<close>

theorem IsChinaMainland_unique_local_counterexample:
  "ParseIP ''fc00::1'' = Some [0xfc, 0, 0, 0, 0, 0, 0, 0, 0, 0, 0, 0, 0, 0, 0, 1]
   \<and> uniqueLocalV6 [0xfc, 0, 0, 0, 0, 0, 0, 0, 0, 0, 0, 0, 0, 0, 0, 1]
   \<and> IsChinaMainland ParseIP ''fc00::1'' = Inr False"
  by code_simp

text \<open>
  Claim C7, amended. \<open>IsChinaMainland\<close> always returns a boolean: none of its indexed
  reads is out of range. An address that parses to a loopback address (\<open>127.0.0.0/8\<close> or
  \<open>::1\<close>) or to an IPv4 private-range address is restricted. A string that does not
  parse is not restricted; neither is an address that parses and is neither loopback
  nor IPv4-private nor in the table of first bytes 1 to 100, and in particular an IPv6
  unique local address is not restricted. The parser is any function that reads \<open>::1\<close>
  as the IPv6 loopback address, as \<open>net.ParseIP\<close> does.
\<close>

theorem IsChinaMainland_classifies:
  assumes lb: "parse ''::1'' = Some IPv6loopback"
  shows "(\<exists>r. IsChinaMainland parse ipStr = Inr r)
    \<and> (\<forall>ip a b c d. parse ipStr = Some ip \<and> To4 ip = Some [a, b, c, d] \<and> loopbackOrPrivateV4 a b
          \<longrightarrow> IsChinaMainland parse ipStr = Inr True)
    \<and> (parse ipStr = Some IPv6loopback \<longrightarrow> IsChinaMainland parse ipStr = Inr True)
    \<and> (parse ipStr = None \<longrightarrow> IsChinaMainland parse ipStr = Inr False)
    \<and> (\<forall>ip a b c d. parse ipStr = Some ip \<and> To4 ip = Some [a, b, c, d]
          \<and> \<not> loopbackOrPrivateV4 a b \<and> \<not> inRangeTable a
          \<longrightarrow> IsChinaMainland parse ipStr = Inr False)
    \<and> (\<forall>ip. parse ipStr = Some ip \<and> To4 ip = None \<and> ip \<noteq> IPv6loopback
          \<longrightarrow> IsChinaMainland parse ipStr = Inr False)
    \<and> (\<forall>ip. parse ipStr = Some ip \<and> uniqueLocalV6 ip
          \<longrightarrow> IsChinaMainland parse ipStr = Inr False)"
proof (cases "ipStr = ''::1''")
  case True
  with lb show ?thesis
    using uniqueLocalV6_not_loopback by (auto simp add: classify_literal To4_loopback)
next
  case False
  show ?thesis
  proof (cases "parse ipStr")
    case None
    with False show ?thesis by (auto simp add: classify_unparsable)
  next
    case (Some ip)
    show ?thesis
    proof (cases "To4 ip")
      case None
      with False Some show ?thesis
        using uniqueLocalV6_not_loopback by (auto simp add: classify_v6 To4_loopback)
    next
      case v4: (Some ip4)
      then obtain a b c d where "ip4 = [a, b, c, d]"
        using To4_Some_bytes by blast
      with v4 have t: "To4 ip = Some [a, b, c, d]" by simp
      have "IsChinaMainland parse ipStr = Inr (loopbackOrPrivateV4 a b \<or> inRangeTable a)"
        using False Some t by (rule classify_v4)
      with Some t show ?thesis
        using To4_loopback uniqueLocalV6_not_v4 by auto
    qed
  qed
qed

text \<open>
  The witness runs the classifier with the model of \<open>net.ParseIP\<close> on a private IPv4
  address, on a string that is no address, on a public address outside the table, and
  on a unique local IPv6 address.
\<close>

theorem IsChinaMainland_classifies_witness:
  "ParseIP ''::1'' = Some IPv6loopback
   \<and> ParseIP ''192.168.1.10'' = Some (v4InV6Prefix @ [192, 168, 1, 10])
   \<and> To4 (v4InV6Prefix @ [192, 168, 1, 10]) = Some [192, 168, 1, 10]
   \<and> loopbackOrPrivateV4 192 168
   \<and> IsChinaMainland ParseIP ''192.168.1.10'' = Inr True
   \<and> ParseIP ''not an address'' = None
   \<and> IsChinaMainland ParseIP ''not an address'' = Inr False
   \<and> ParseIP ''203.0.113.7'' = Some (v4InV6Prefix @ [203, 0, 113, 7])
   \<and> IsChinaMainland ParseIP ''203.0.113.7'' = Inr False
   \<and> ParseIP ''fd00::7'' = Some [0xfd, 0, 0, 0, 0, 0, 0, 0, 0, 0, 0, 0, 0, 0, 0, 7]
   \<and> uniqueLocalV6 [0xfd, 0, 0, 0, 0, 0, 0, 0, 0, 0, 0, 0, 0, 0, 0, 7]
   \<and> IsChinaMainland ParseIP ''fd00::7'' = Inr False"
proof -
  have lb: "ParseIP ''::1'' = Some IPv6loopback"
    by code_simp
  have p1: "ParseIP ''192.168.1.10'' = Some (v4InV6Prefix @ [192, 168, 1, 10])"
    by code_simp
  have t1: "To4 (v4InV6Prefix @ [192, 168, 1, 10]) = Some [192, 168, 1, 10]"
    by code_simp
  have l1: "loopbackOrPrivateV4 192 168"
    by (simp add: loopbackOrPrivateV4_def)
  have p2: "ParseIP ''not an address'' = None"
    by code_simp
  have p3: "ParseIP ''203.0.113.7'' = Some (v4InV6Prefix @ [203, 0, 113, 7])"
    by code_simp
  have t3: "To4 (v4InV6Prefix @ [203, 0, 113, 7]) = Some [203, 0, 113, 7]"
    by code_simp
  have l3: "\<not> loopbackOrPrivateV4 203 0 \<and> \<not> inRangeTable 203"
    by (simp add: loopbackOrPrivateV4_def inRangeTable_def)
  have p4: "ParseIP ''fd00::7'' = Some [0xfd, 0, 0, 0, 0, 0, 0, 0, 0, 0, 0, 0, 0, 0, 0, 7]"
    by code_simp
  have u4: "uniqueLocalV6 [0xfd, 0, 0, 0, 0, 0, 0, 0, 0, 0, 0, 0, 0, 0, 0, 7]"
    by (simp add: uniqueLocalV6_def)
  from IsChinaMainland_classifies [of ParseIP "''fd00::7''", OF lb] p4 u4
  have r4: "IsChinaMainland ParseIP ''fd00::7'' = Inr False"
    by blast
  from IsChinaMainland_classifies [of ParseIP "''192.168.1.10''", OF lb] p1 t1 l1
  have r1: "IsChinaMainland ParseIP ''192.168.1.10'' = Inr True"
    by blast
  from IsChinaMainland_classifies [of ParseIP "''not an address''", OF lb] p2
  have r2: "IsChinaMainland ParseIP ''not an address'' = Inr False"
    by blast
  from IsChinaMainland_classifies [of ParseIP "''203.0.113.7''", OF lb] p3 t3 l3
  have r3: "IsChinaMainland ParseIP ''203.0.113.7'' = Inr False"
    by blast
  from lb p1 t1 l1 r1 p2 r2 p3 r3 p4 u4 r4 show ?thesis by blast
qed

section \<open>Properties of the cache-aside paths\<close>

lemma Search_hit:
  "cachedResult env (cacheKey query page pageSize) = Some result \<Longrightarrow>
     Search env query page pageSize = (Inr result, [], [])"
  by (simp add: Search_def)

lemma cachedResult_Some:
  "redisGet (redis env) key = Inr val \<Longrightarrow> unmarshalResult env val = Some result \<Longrightarrow>
     cachedResult env key = Some result"
  by (simp add: cachedResult_def)

lemma Search_failure_no_tasks:
  "fst (Search env query page pageSize) = Inl e \<Longrightarrow> snd (snd (Search env query page pageSize)) = []"
  by (auto simp add: Search_def split: option.splits sum.splits if_splits prod.splits)

lemma Search_tasks:
  "Search env query page pageSize = (Inr fetched, calls, tasks) \<Longrightarrow> tasks \<noteq> [] \<Longrightarrow>
     tasks = [WriteBackResult (cacheKey query page pageSize) cacheTTL]"
  by (auto simp add: Search_def split: option.splits sum.splits if_splits prod.splits)

lemma redisGet_after_Set:
  "reachable r \<Longrightarrow> redisGet (redisSet r key val ttl) key = Inr val"
  by (simp add: redisGet_def redisSet_def)

text \<open>
  Claim C2. When the cache holds, under the key of (query, page, size), a value that
  deserialises to a result, \<open>Search\<close> returns that result, sends no request to
  Elasticsearch and starts no write. And after a miss has populated the cache, the same
  request is answered from the cache in that way: when the pending write of the miss
  has run against a reachable server, whatever the returned pointer led to at that
  moment (\<open>current\<close>: the result as fetched, or the result after the handler assigned
  its hits), and the bytes written deserialise, \<open>Search\<close> returns what they deserialise
  to, sends no request and starts no write.
\<close>

theorem Search_answers_from_cache:
  "(redisGet (redis env) (cacheKey query page pageSize) = Inr val \<and> unmarshalResult env val = Some result
      \<longrightarrow> Search env query page pageSize = (Inr result, [], []))
   \<and> (Search env query page pageSize = (Inr fetched, calls, tasks) \<and> tasks \<noteq> []
       \<and> reachable (redis env)
       \<and> marshalResult env current = Some bytes \<and> unmarshalResult env bytes = Some cached
      \<longrightarrow> Search (env\<lparr>redis := runWriteBacks env current (redis env) tasks\<rparr>) query page pageSize
            = (Inr cached, [], []))"
proof (intro conjI impI)
  assume "redisGet (redis env) (cacheKey query page pageSize) = Inr val \<and> unmarshalResult env val = Some result"
  then have "cachedResult env (cacheKey query page pageSize) = Some result"
    by (simp add: cachedResult_Some)
  then show "Search env query page pageSize = (Inr result, [], [])"
    by (rule Search_hit)
next
  let ?key = "cacheKey query page pageSize"
  let ?env' = "env\<lparr>redis := runWriteBacks env current (redis env) tasks\<rparr>"
  assume a: "Search env query page pageSize = (Inr fetched, calls, tasks) \<and> tasks \<noteq> []
       \<and> reachable (redis env)
       \<and> marshalResult env current = Some bytes \<and> unmarshalResult env bytes = Some cached"
  then have tasks: "tasks = [WriteBackResult ?key cacheTTL]"
    using Search_tasks by blast
  with a have "runWriteBacks env current (redis env) tasks = redisSet (redis env) ?key bytes cacheTTL"
    by simp
  with a have "redisGet (redis ?env') ?key = Inr bytes"
    by (simp add: redisGet_after_Set)
  moreover from a have "unmarshalResult ?env' bytes = Some cached"
    by simp
  ultimately have "cachedResult ?env' ?key = Some cached"
    by (rule cachedResult_Some)
  then show "Search ?env' query page pageSize = (Inr cached, [], [])"
    by (rule Search_hit)
qed

text \<open>
  The witness has a hit on the warm server, and on the live server the miss of a
  restricted caller: \<open>Search\<close> fetches two hits, the handler assigns the one hit the
  filter keeps through the pointer, the pending write runs after the handler and
  stores the filtered result, and the same request is then answered with it from the
  cache.
\<close>

theorem Search_answers_from_cache_witness:
  "redisGet (redis warmEnv) (cacheKey ''hello'' 1 10) = Inr ''cached-result''
   \<and> unmarshalResult warmEnv ''cached-result'' = Some exampleResult
   \<and> Search warmEnv ''hello'' 1 10 = (Inr exampleResult, [], [])
   \<and> Search liveEnv ''go'' 1 10
       = (Inr liveResult, [(''webpages'', ''match go'')],
          [WriteBackResult (cacheKey ''go'' 1 10) cacheTTL])
   \<and> snd (snd (snd (Handler_Search liveHandler liveRequest))) = Some liveFiltered
   \<and> reachable (redis liveEnv)
   \<and> marshalResult liveEnv liveFiltered = Some ''live-filtered''
   \<and> unmarshalResult liveEnv ''live-filtered'' = Some liveFiltered
   \<and> Search
        (liveEnv\<lparr>redis := runWriteBacks liveEnv liveFiltered (redis liveEnv)
                             [WriteBackResult (cacheKey ''go'' 1 10) cacheTTL]\<rparr>)
        ''go'' 1 10
       = (Inr liveFiltered, [], [])"
proof -
  have get: "redisGet (redis warmEnv) (cacheKey ''hello'' 1 10) = Inr ''cached-result''"
    by code_simp
  have dec: "unmarshalResult warmEnv ''cached-result'' = Some exampleResult"
    by (simp add: warmEnv_def)
  have miss: "Search liveEnv ''go'' 1 10
       = (Inr liveResult, [(''webpages'', ''match go'')],
          [WriteBackResult (cacheKey ''go'' 1 10) cacheTTL])"
    by code_simp
  have object: "snd (snd (snd (Handler_Search liveHandler liveRequest))) = Some liveFiltered"
    by code_simp
  have up: "reachable (redis liveEnv)"
    by (simp add: liveEnv_def)
  have enc: "marshalResult liveEnv liveFiltered = Some ''live-filtered''"
    by code_simp
  have dec': "unmarshalResult liveEnv ''live-filtered'' = Some liveFiltered"
    by (simp add: liveEnv_def)
  note hit = Search_answers_from_cache
    [where env = warmEnv and query = "''hello''" and page = 1 and pageSize = 10
       and val = "''cached-result''" and result = exampleResult, THEN conjunct1]
  note again = Search_answers_from_cache
    [where env = liveEnv and query = "''go''" and page = 1 and pageSize = 10
       and fetched = liveResult and calls = "[(''webpages'', ''match go'')]"
       and tasks = "[WriteBackResult (cacheKey ''go'' 1 10) cacheTTL]"
       and current = liveFiltered
       and bytes = "''live-filtered''" and cached = liveFiltered, THEN conjunct2]
  from hit get dec have r1: "Search warmEnv ''hello'' 1 10 = (Inr exampleResult, [], [])"
    by blast
  from again miss up enc dec'
  have r2: "Search
        (liveEnv\<lparr>redis := runWriteBacks liveEnv liveFiltered (redis liveEnv)
                             [WriteBackResult (cacheKey ''go'' 1 10) cacheTTL]\<rparr>)
        ''go'' 1 10
       = (Inr liveFiltered, [], [])"
    by blast
  from get dec r1 miss object up enc dec' r2 show ?thesis by blast
qed

text \<open>
  Claim C5. When the read misses and \<open>fetch\<close> returns an error, \<open>GetOrSet\<close> returns that
  error and starts no write-back task, so the cache is what it was. In \<open>Search\<close>, when
  the cache gives no result and the request to Elasticsearch fails, or is answered with
  an error status, the error is returned and no write is started; indeed no run of
  \<open>Search\<close> that ends in an error or a panic starts a write.
\<close>

theorem cache_aside_error_no_write:
  "(redisGet c key = Inl miss \<and> fetch () = Inl err
      \<longrightarrow> GetOrSet c key ttl fetch = (Inl err, [])
          \<and> runTasks marshal c (snd (GetOrSet c key ttl fetch)) = c)
   \<and> (cachedResult env (cacheKey query page pageSize) = None
       \<and> encodeQuery env (buildQuery query page pageSize) = Inr buf
       \<and> esSearch env ''webpages'' buf = Inl failure
      \<longrightarrow> Search env query page pageSize = (Inl (Error failure), [(''webpages'', buf)], []))
   \<and> (cachedResult env (cacheKey query page pageSize) = None
       \<and> encodeQuery env (buildQuery query page pageSize) = Inr buf
       \<and> esSearch env ''webpages'' buf = Inr res \<and> IsError res
      \<longrightarrow> Search env query page pageSize
            = (Inl (Error (''search request failed: '' @ Text res)), [(''webpages'', buf)], []))
   \<and> (\<forall>e. fst (Search env query page pageSize) = Inl e
      \<longrightarrow> snd (snd (Search env query page pageSize)) = []
          \<and> runWriteBacks env current (redis env) (snd (snd (Search env query page pageSize)))
              = redis env)"
proof (intro conjI impI allI)
  assume "redisGet c key = Inl miss \<and> fetch () = Inl err"
  then show "GetOrSet c key ttl fetch = (Inl err, [])"
    by (simp add: GetOrSet_def)
  then show "runTasks marshal c (snd (GetOrSet c key ttl fetch)) = c"
    by simp
next
  assume "cachedResult env (cacheKey query page pageSize) = None
       \<and> encodeQuery env (buildQuery query page pageSize) = Inr buf
       \<and> esSearch env ''webpages'' buf = Inl failure"
  then show "Search env query page pageSize = (Inl (Error failure), [(''webpages'', buf)], [])"
    by (simp add: Search_def)
next
  assume "cachedResult env (cacheKey query page pageSize) = None
       \<and> encodeQuery env (buildQuery query page pageSize) = Inr buf
       \<and> esSearch env ''webpages'' buf = Inr res \<and> IsError res"
  then show "Search env query page pageSize
            = (Inl (Error (''search request failed: '' @ Text res)), [(''webpages'', buf)], [])"
    by (simp add: Search_def)
next
  fix e
  assume "fst (Search env query page pageSize) = Inl e"
  then show none: "snd (snd (Search env query page pageSize)) = []"
    by (rule Search_failure_no_tasks)
  then show "runWriteBacks env current (redis env) (snd (snd (Search env query page pageSize)))
              = redis env"
    by simp
qed

theorem cache_aside_error_no_write_witness:
  "redisGet (redis coldEnv) ''k'' = Inl RedisNil
   \<and> GetOrSet (redis coldEnv) ''k'' 60 (\<lambda>u. Inl ''backend down'' :: string + SearchResult)
       = (Inl ''backend down'', [])
   \<and> cachedResult coldEnv (cacheKey ''hello'' 1 10) = None
   \<and> encodeQuery coldEnv (buildQuery ''hello'' 1 10) = Inr ''match hello''
   \<and> esSearch coldEnv ''webpages'' ''match hello'' = Inl ''connection refused''
   \<and> Search coldEnv ''hello'' 1 10
       = (Inl (Error ''connection refused''), [(''webpages'', ''match hello'')], [])"
proof -
  have get: "redisGet (redis coldEnv) ''k'' = Inl RedisNil"
    by code_simp
  have miss: "cachedResult coldEnv (cacheKey ''hello'' 1 10) = None"
    by code_simp
  have enc: "encodeQuery coldEnv (buildQuery ''hello'' 1 10) = Inr ''match hello''"
    by code_simp
  have es: "esSearch coldEnv ''webpages'' ''match hello'' = Inl ''connection refused''"
    by (simp add: coldEnv_def warmEnv_def)
  note inst = cache_aside_error_no_write
    [where c = "redis coldEnv" and key = "''k''" and miss = RedisNil
       and fetch = "\<lambda>u. Inl ''backend down'' :: string + SearchResult" and err = "''backend down''"
       and ttl = 60 and env = coldEnv and query = "''hello''" and page = 1 and pageSize = 10
       and buf = "''match hello''" and failure = "''connection refused''"]
  from inst get
  have r1: "GetOrSet (redis coldEnv) ''k'' 60 (\<lambda>u. Inl ''backend down'' :: string + SearchResult)
       = (Inl ''backend down'', [])"
    by blast
  from inst miss enc es
  have r2: "Search coldEnv ''hello'' 1 10
       = (Inl (Error ''connection refused''), [(''webpages'', ''match hello'')], [])"
    by blast
  from get r1 miss enc es r2 show ?thesis by blast
qed

section \<open>Properties of the handler\<close>

lemma shapeResponse_filtered:
  assumes "0 < snd (Filter f (Hits result))"
  shows "shapeResponse f True result =
           \<lparr>Total = Total result, Hits = fst (Filter f (Hits result)), Took = Took result,
            Suggestions = Suggestions result, Filtered = True, Message = filteredNotice\<rparr>"
  using assms by (cases "Filter f (Hits result)") (simp add: shapeResponse_def Let_def)

text \<open>The response of a request that passes validation, finds a result and classifies the caller.\<close>

lemma Handler_Search_ok:
  assumes "validateSearchInput (Query c ''q'') = (query, True)"
    and "validatePagination (DefaultQuery c ''page'' ''1'') (DefaultQuery c ''size'' ''10'')
           = (page, pageSize)"
    and "fst (Search (svc h) query page pageSize) = Inr result"
    and "IsChinaMainland (ipSvc h) (ClientIP c) = Inr isCN"
  shows "fst (Handler_Search h c) =
           Some \<lparr>Status = 200, JSON = ResultBody (shapeResponse (filterSvc h) isCN result)\<rparr>"
proof -
  obtain calls tasks where "Search (svc h) query page pageSize = (Inr result, calls, tasks)"
    using assms(3) by (cases "Search (svc h) query page pageSize") auto
  with assms(1,2,4) show ?thesis
    by (simp add: Handler_Search_def)
qed

text \<open>
  What the pending write of \<open>Search\<close> finds behind the pointer once the handler has
  returned: for a restricted caller whose response was filtered, the result with the
  kept hits in place of the fetched ones.
\<close>

lemma Handler_Search_object:
  assumes "validateSearchInput (Query c ''q'') = (query, True)"
    and "validatePagination (DefaultQuery c ''page'' ''1'') (DefaultQuery c ''size'' ''10'')
           = (page, pageSize)"
    and "fst (Search (svc h) query page pageSize) = Inr result"
    and "IsChinaMainland (ipSvc h) (ClientIP c) = Inr True"
    and "0 < snd (Filter (filterSvc h) (Hits result))"
  shows "snd (snd (snd (Handler_Search h c)))
           = Some (result\<lparr>Hits := fst (Filter (filterSvc h) (Hits result))\<rparr>)"
proof -
  obtain calls tasks where "Search (svc h) query page pageSize = (Inr result, calls, tasks)"
    using assms(3) by (cases "Search (svc h) query page pageSize") auto
  with assms(1,2,4) have "snd (snd (snd (Handler_Search h c)))
      = Some (resultObject (shapeResponse (filterSvc h) True result))"
    by (simp add: Handler_Search_def)
  with assms(5) show ?thesis
    by (simp add: shapeResponse_filtered resultObject_def)
qed



text \<open>
  Claim C10. Under the same conditions the response keeps \<open>Total\<close>, \<open>Took\<close> and
  \<open>Suggestions\<close> of the result that \<open>Search\<close> returned; it differs from the response an
  unrestricted caller gets in \<open>Hits\<close>, \<open>Filtered\<close> and \<open>Message\<close> only. In particular
  \<open>Total\<close> is not reduced by the number of documents removed.
\<close>

theorem Handler_Search_frame:
  assumes "validateSearchInput (Query c ''q'') = (query, True)"
    and "validatePagination (DefaultQuery c ''page'' ''1'') (DefaultQuery c ''size'' ''10'')
           = (page, pageSize)"
    and "fst (Search (svc h) query page pageSize) = Inr result"
    and "IsChinaMainland (ipSvc h) (ClientIP c) = Inr True"
    and "0 < snd (Filter (filterSvc h) (Hits result))"
  shows "\<exists>response.
           fst (Handler_Search h c) = Some \<lparr>Status = 200, JSON = ResultBody response\<rparr>
           \<and> Total response = Total result
           \<and> Took response = Took result
           \<and> Suggestions response = Suggestions result
           \<and> response\<lparr>Hits := Hits result, Filtered := False, Message := []\<rparr>
               = shapeResponse (filterSvc h) False result"
proof -
  let ?response = "shapeResponse (filterSvc h) True result"
  have "fst (Handler_Search h c) = Some \<lparr>Status = 200, JSON = ResultBody ?response\<rparr>"
    using assms(1-4) by (rule Handler_Search_ok)
  moreover have "Total ?response = Total result" "Took ?response = Took result"
    "Suggestions ?response = Suggestions result"
    using assms(5) by (simp_all add: shapeResponse_filtered)
  moreover have "?response\<lparr>Hits := Hits result, Filtered := False, Message := []\<rparr>
      = shapeResponse (filterSvc h) False result"
    using assms(5) by (simp add: shapeResponse_filtered) (simp add: shapeResponse_def)
  ultimately show ?thesis by auto
qed

theorem Handler_Search_frame_witness:
  "validateSearchInput (Query exampleRequest ''q'') = (''hello'', True)
   \<and> validatePagination (DefaultQuery exampleRequest ''page'' ''1'')
        (DefaultQuery exampleRequest ''size'' ''10'') = (1, 10)
   \<and> fst (Search (svc exampleHandler) ''hello'' 1 10) = Inr exampleResult
   \<and> IsChinaMainland (ipSvc exampleHandler) (ClientIP exampleRequest) = Inr True
   \<and> snd (Filter (filterSvc exampleHandler) (Hits exampleResult)) = 2
   \<and> (\<exists>response.
         fst (Handler_Search exampleHandler exampleRequest)
           = Some \<lparr>Status = 200, JSON = ResultBody response\<rparr>
         \<and> Total response = 3
         \<and> Took response = 4
         \<and> Suggestions response = [''hello tutorial'', ''hello example'', ''hello docs''])"
proof -
  have valid: "validateSearchInput (Query exampleRequest ''q'') = (''hello'', True)"
    by code_simp
  have paging: "validatePagination (DefaultQuery exampleRequest ''page'' ''1'')
        (DefaultQuery exampleRequest ''size'' ''10'') = (1, 10)"
    by code_simp
  have found: "fst (Search (svc exampleHandler) ''hello'' 1 10) = Inr exampleResult"
    by code_simp
  have cn: "IsChinaMainland (ipSvc exampleHandler) (ClientIP exampleRequest) = Inr True"
    by code_simp
  have removed: "snd (Filter (filterSvc exampleHandler) (Hits exampleResult)) = 2"
    by code_simp
  have fields: "Total exampleResult = 3" "Took exampleResult = 4"
    "Suggestions exampleResult = [''hello tutorial'', ''hello example'', ''hello docs'']"
    by (simp_all add: exampleResult_def getSuggestions_def)
  from removed have pos: "0 < snd (Filter (filterSvc exampleHandler) (Hits exampleResult))"
    by simp
  from Handler_Search_frame [OF valid paging found cn pos] fields
  have "\<exists>response.
         fst (Handler_Search exampleHandler exampleRequest)
           = Some \<lparr>Status = 200, JSON = ResultBody response\<rparr>
         \<and> Total response = 3
         \<and> Took response = 4
         \<and> Suggestions response = [''hello tutorial'', ''hello example'', ''hello docs'']"
    by auto
  with valid paging found cn removed show ?thesis by blast
qed

end
